theory Spec2Isabelle
  imports Main
begin

section \<open>GraphQL schema nodes\<close>

text \<open>
  The transformers work on the AST of the \<^verbatim>\<open>graphql\<close> package. A type reference is a named
  type, a list type or a non-null wrapper. Nodes are JavaScript objects compared with
  \<^verbatim>\<open>===\<close>; every field node carries its own identity \<open>field_id\<close>, so that equality of
  records is identity of nodes.
\<close>

datatype TypeNode = NamedType string | ListType TypeNode | NonNullType TypeNode

record DirectiveNode =
  directive_name :: string

record FieldDefinitionNode =
  field_id :: nat
  field_name :: string
  field_type :: TypeNode
  field_directives :: "DirectiveNode list"

record ObjectTypeDefinitionNode =
  object_name :: string
  object_fields :: "FieldDefinitionNode list"
  object_directives :: "DirectiveNode list"

text \<open>An enum type definition is represented by its name.\<close>

type_synonym EnumTypeDefinitionNode = string

section \<open>Errors\<close>

text \<open>
  Every \<^verbatim>\<open>throw\<close> of the source is a value: \<open>InvalidDirectiveError\<close> with its message for
  the validator, \<open>Error\<close> with its message for a plain \<^verbatim>\<open>new Error(...)\<close> and for a failed
  lookup, \<open>TypeError\<close> for a property read on \<^verbatim>\<open>undefined\<close>.
\<close>

datatype error = InvalidDirectiveError string | Error string | TypeError string

definition quote :: "string \<Rightarrow> string" where
  "quote s = [CHR 0x27] @ s @ [CHR 0x27]"

section \<open>The primary-key directive validator\<close>

definition directiveName :: string where
  "directiveName = ''primaryKey''"

record PrimaryKeyDirectiveConfiguration =
  cfg_object :: ObjectTypeDefinitionNode
  cfg_field :: FieldDefinitionNode
  cfg_directive :: DirectiveNode
  cfg_sortKeyFields :: "string list"
  cfg_sortKey :: "FieldDefinitionNode list"
  cfg_modelDirective :: "DirectiveNode option"

text \<open>
  The helpers that \<^verbatim>\<open>validate\<close> imports are parameters of the model:
  \<^verbatim>\<open>isNonNullType\<close>, \<^verbatim>\<open>isListType\<close> and \<^verbatim>\<open>isScalarOrEnum\<close> of graphql-transformer-common,
  \<^verbatim>\<open>validateNotSelfReferencing\<close> (which throws or returns) and \<^verbatim>\<open>validateNotOwnerAuth\<close>
  (which returns a boolean) of \<^verbatim>\<open>./utils\<close>, and the enum definitions that
  \<^verbatim>\<open>ctx.output.getTypeDefinitionsOfKind\<close> returns.
\<close>

record validator_env =
  isNonNullType :: "TypeNode \<Rightarrow> bool"
  isListType :: "TypeNode \<Rightarrow> bool"
  isScalarOrEnum :: "TypeNode \<Rightarrow> EnumTypeDefinitionNode list \<Rightarrow> bool"
  validateNotSelfReferencing :: "PrimaryKeyDirectiveConfiguration \<Rightarrow> error option"
  validateNotOwnerAuth :: "string \<Rightarrow> PrimaryKeyDirectiveConfiguration \<Rightarrow> bool"
  enumDefinitions :: "EnumTypeDefinitionNode list"

text \<open>The messages of the failures, as the template literals of the source build them.\<close>

definition MissingModelDirective :: error where
  "MissingModelDirective = InvalidDirectiveError
     (''The @'' @ directiveName @
      '' directive may only be added to object definitions annotated with @model.'')"

definition DuplicatePrimaryKey :: "string \<Rightarrow> error" where
  "DuplicatePrimaryKey objectName = InvalidDirectiveError
     (''You may only supply one primary key on type '' @ quote objectName @ ''.'')"

definition NullablePrimaryKey :: "string \<Rightarrow> error" where
  "NullablePrimaryKey objectName = InvalidDirectiveError
     (''The primary key on type '' @ quote objectName @ '' must reference non-null fields.'')"

definition InvalidPrimaryKeyType :: "string \<Rightarrow> string \<Rightarrow> error" where
  "InvalidPrimaryKeyType objectName fieldName = InvalidDirectiveError
     (''The primary key on type '' @ quote (objectName @ ''.'' @ fieldName) @
      '' cannot be a non-scalar.'')"

definition UnknownSortKeyField :: "string \<Rightarrow> string \<Rightarrow> error" where
  "UnknownSortKeyField sortKeyFieldName objectName = InvalidDirectiveError
     (''Can'' @ [CHR 0x27] @ ''t find field '' @ quote sortKeyFieldName @ '' in '' @ objectName @
      '', but it was specified in the primary key.'')"

definition InvalidSortKeyType :: "string \<Rightarrow> string \<Rightarrow> error" where
  "InvalidSortKeyType objectName fieldName = InvalidDirectiveError
     (''The primary key'' @ [CHR 0x27] @ ''s sort key on type '' @
      quote (objectName @ ''.'' @ fieldName) @ '' cannot be a non-scalar.'')"

definition SortKeyOwnerConflict :: "string \<Rightarrow> error" where
  "SortKeyOwnerConflict sortKeyFieldName = InvalidDirectiveError
     (''The primary key'' @ [CHR 0x27] @ ''s sort key type '' @ quote sortKeyFieldName @
      '' cannot be used as an owner @auth field too. Please use another field for the sort key.'')"

text \<open>The inner loop of lines 291-295: does a directive of the field have the given name?\<close>

fun hasDirective :: "string \<Rightarrow> DirectiveNode list \<Rightarrow> bool" where
  "hasDirective n [] = False"
| "hasDirective n (directive # rest) =
     (if directive_name directive = n then True else hasDirective n rest)"

text \<open>
  The loop of lines 284-296 over \<^verbatim>\<open>object.fields\<close>: every field is entered in the field map
  (a later field of the same name replaces an earlier one), the annotated field itself is
  skipped, and any other field with a primary-key directive throws.
\<close>

fun buildFieldMap ::
  "string \<Rightarrow> FieldDefinitionNode \<Rightarrow> FieldDefinitionNode list \<Rightarrow>
   (string \<rightharpoonup> FieldDefinitionNode) \<Rightarrow> error + (string \<rightharpoonup> FieldDefinitionNode)" where
  "buildFieldMap objectName field [] fieldMap = Inr fieldMap"
| "buildFieldMap objectName field (objectField # rest) fieldMap =
     (if field = objectField
      then buildFieldMap objectName field rest (fieldMap(field_name objectField \<mapsto> objectField))
      else if hasDirective directiveName (field_directives objectField)
      then Inl (DuplicatePrimaryKey objectName)
      else buildFieldMap objectName field rest (fieldMap(field_name objectField \<mapsto> objectField)))"

text \<open>
  The loop of lines 308-334 over \<^verbatim>\<open>sortKeyFields\<close>. The configuration is threaded through,
  since each round pushes the resolved field on \<^verbatim>\<open>config.sortKey\<close>.
\<close>

fun sortKeyLoop ::
  "validator_env \<Rightarrow> (string \<rightharpoonup> FieldDefinitionNode) \<Rightarrow> string list \<Rightarrow>
   PrimaryKeyDirectiveConfiguration \<Rightarrow> error + PrimaryKeyDirectiveConfiguration" where
  "sortKeyLoop env fieldMap [] config = Inr config"
| "sortKeyLoop env fieldMap (sortKeyFieldName # rest) config =
     (case fieldMap sortKeyFieldName of
        None \<Rightarrow> Inl (UnknownSortKeyField sortKeyFieldName (object_name (cfg_object config)))
      | Some sortField \<Rightarrow>
          if \<not> isScalarOrEnum env (field_type sortField) (enumDefinitions env)
             \<or> isListType env (field_type sortField)
          then Inl (InvalidSortKeyType (object_name (cfg_object config)) (field_name sortField))
          else if \<not> isNonNullType env (field_type sortField)
          then Inl (NullablePrimaryKey (object_name (cfg_object config)))
          else if \<not> validateNotOwnerAuth env sortKeyFieldName config
          then Inl (SortKeyOwnerConflict sortKeyFieldName)
          else sortKeyLoop env fieldMap rest
                 (config\<lparr>cfg_sortKey := cfg_sortKey config @ [sortField]\<rparr>))"

definition validate ::
  "validator_env \<Rightarrow> PrimaryKeyDirectiveConfiguration \<Rightarrow> error + PrimaryKeyDirectiveConfiguration"
  where
  "validate env config =
     (case validateNotSelfReferencing env config of
        Some e \<Rightarrow> Inl e
      | None \<Rightarrow>
     (case find (\<lambda>directive. directive_name directive = ''model'')
                (object_directives (cfg_object config)) of
        None \<Rightarrow> Inl MissingModelDirective
      | Some modelDirective \<Rightarrow>
     (let config1 = config\<lparr>cfg_modelDirective := Some modelDirective\<rparr> in
      case buildFieldMap (object_name (cfg_object config)) (cfg_field config)
             (object_fields (cfg_object config)) Map.empty of
        Inl e \<Rightarrow> Inl e
      | Inr fieldMap \<Rightarrow>
          if \<not> isNonNullType env (field_type (cfg_field config))
          then Inl (NullablePrimaryKey (object_name (cfg_object config)))
          else if \<not> isScalarOrEnum env (field_type (cfg_field config)) (enumDefinitions env)
                  \<or> isListType env (field_type (cfg_field config))
          then Inl (InvalidPrimaryKeyType (object_name (cfg_object config))
                      (field_name (cfg_field config)))
          else sortKeyLoop env fieldMap (cfg_sortKeyFields config) config1)))"

section \<open>The primary-key transformer\<close>

text \<open>
  \<^verbatim>\<open>PrimaryKeyTransformer\<close> keeps the validated configurations in \<^verbatim>\<open>directiveList\<close>. The
  \<^verbatim>\<open>sortKeyFields\<close> argument that \<^verbatim>\<open>getArguments\<close> returns is absent, a single string or an
  array; \<^verbatim>\<open>field\<close> normalises it (an empty string is falsy, an array never is).
\<close>

datatype sortKeyFieldsArg = ArgUndefined | ArgString string | ArgArray "string list"

fun normaliseSortKeyFields :: "sortKeyFieldsArg \<Rightarrow> string list" where
  "normaliseSortKeyFields ArgUndefined = []"
| "normaliseSortKeyFields (ArgString s) = (if s = [] then [] else [s])"
| "normaliseSortKeyFields (ArgArray xs) = xs"

record PrimaryKeyTransformer =
  directiveList :: "PrimaryKeyDirectiveConfiguration list"

definition newPrimaryKeyTransformer :: PrimaryKeyTransformer where
  "newPrimaryKeyTransformer = \<lparr>directiveList = []\<rparr>"

definition getArguments ::
  "ObjectTypeDefinitionNode \<Rightarrow> FieldDefinitionNode \<Rightarrow> DirectiveNode \<Rightarrow> sortKeyFieldsArg \<Rightarrow>
   PrimaryKeyDirectiveConfiguration" where
  "getArguments parent definition directive sortKeyFields =
     \<lparr>cfg_object = parent, cfg_field = definition, cfg_directive = directive,
      cfg_sortKeyFields = normaliseSortKeyFields sortKeyFields,
      cfg_sortKey = [], cfg_modelDirective = None\<rparr>"

text \<open>
  \<^verbatim>\<open>field\<close> returns the exception it throws, if any, and the transformer as the call leaves
  it: the only assignment to \<^verbatim>\<open>this.directiveList\<close> is the push after \<^verbatim>\<open>validate\<close> returned.
\<close>

definition field ::
  "validator_env \<Rightarrow> PrimaryKeyTransformer \<Rightarrow> ObjectTypeDefinitionNode \<Rightarrow> FieldDefinitionNode \<Rightarrow>
   DirectiveNode \<Rightarrow> sortKeyFieldsArg \<Rightarrow> error option \<times> PrimaryKeyTransformer" where
  "field env this parent definition directive sortKeyFields =
     (let args = getArguments parent definition directive sortKeyFields in
      case validate env args of
        Inl e \<Rightarrow> (Some e, this)
      | Inr args' \<Rightarrow> (None, this\<lparr>directiveList := directiveList this @ [args']\<rparr>))"

text \<open>
  \<^verbatim>\<open>generateResolvers\<close> calls the generator of the model's datasource once for each recorded
  configuration, in order. The two generators and the state they write to (the resolvers of
  the context and the resolver map) are parameters: \<open>generate\<close> is the effect of one call
  \<^verbatim>\<open>vtlGenerator.generate(config, ctx, this.resolverMap)\<close>.
\<close>

datatype VTLGenerator = RDSPrimaryKeyVTLGenerator | DynamoDBPrimaryKeyVTLGenerator

definition getVTLGenerator :: "string option \<Rightarrow> VTLGenerator" where
  "getVTLGenerator dbInfo =
     (let dbType = (case dbInfo of Some t \<Rightarrow> t | None \<Rightarrow> ''DDB'') in
      if dbType = ''MySQL'' then RDSPrimaryKeyVTLGenerator else DynamoDBPrimaryKeyVTLGenerator)"

definition generateResolvers ::
  "(VTLGenerator \<Rightarrow> PrimaryKeyDirectiveConfiguration \<Rightarrow> 's \<Rightarrow> 's) \<Rightarrow> (string \<rightharpoonup> string) \<Rightarrow>
   PrimaryKeyTransformer \<Rightarrow> 's \<Rightarrow> 's" where
  "generateResolvers generate modelToDatasourceMap this s =
     fold (\<lambda>config. generate
             (getVTLGenerator (modelToDatasourceMap (object_name (cfg_object config)))) config)
          (directiveList this) s"

section \<open>The mapping-template expression tree\<close>

text \<open>
  The nodes of graphql-mapping-template that the relational resolvers build, one constructor
  for each builder function: \<^verbatim>\<open>ref\<close>, \<^verbatim>\<open>raw\<close>, \<^verbatim>\<open>str\<close>, \<^verbatim>\<open>int\<close>, \<^verbatim>\<open>nul\<close>, \<^verbatim>\<open>iff\<close>, \<^verbatim>\<open>ifElse\<close>,
  \<^verbatim>\<open>and\<close>, \<^verbatim>\<open>or\<close>, \<^verbatim>\<open>not\<close>, \<^verbatim>\<open>equals\<close>, \<^verbatim>\<open>methodCall\<close>, \<^verbatim>\<open>set\<close>, \<^verbatim>\<open>qref\<close>, \<^verbatim>\<open>obj\<close>,
  \<^verbatim>\<open>compoundExpression\<close>, \<^verbatim>\<open>toJson\<close> and \<^verbatim>\<open>isNullOrEmpty\<close>. An object node keeps its
  properties in insertion order.
\<close>

datatype Expression =
    Ref string
  | Raw string
  | Str string
  | IntNode int
  | Nul
  | Iff Expression Expression
  | IfElse Expression Expression Expression
  | And "Expression list"
  | Or "Expression list"
  | NotNode Expression
  | Equals Expression Expression
  | MethodCall Expression "Expression list"
  | SetNode Expression Expression
  | Qref Expression
  | Obj "(string \<times> Expression) list"
  | CompoundExpression "Expression list"
  | ToJson Expression
  | IsNullOrEmpty Expression

text \<open>
  \<^verbatim>\<open>Array.prototype.join\<close> on an array of strings.
\<close>

fun join :: "string list \<Rightarrow> string \<Rightarrow> string" where
  "join [] separator = []"
| "join [x] separator = x"
| "join (x # y # ys) separator = x @ separator @ join (y # ys) separator"

text \<open>
  An array read \<^verbatim>\<open>xs[i]\<close> is \<^verbatim>\<open>undefined\<close> out of range, and a template literal prints
  \<^verbatim>\<open>undefined\<close> as that word.
\<close>

definition at_index :: "'a list \<Rightarrow> nat \<Rightarrow> 'a option" where
  "at_index xs i = (if i < length xs then Some (xs ! i) else None)"

definition interpolate :: "string option \<Rightarrow> string" where
  "interpolate s = (case s of None \<Rightarrow> ''undefined'' | Some v \<Rightarrow> v)"

section \<open>Tables, resolvers and the transformer context\<close>

record KeySchemaElement =
  attributeName :: string
  keyType :: string

text \<open>
  The provisioned throughput of an index entry: the two capacity parameters referenced
  directly (the declarative entry), or under the pay-per-request condition with
  \<^verbatim>\<open>AWS::NoValue\<close> as the other branch (the raw entry).
\<close>

datatype ProvisionedThroughput =
    Capacity string string
  | ConditionIf string string ProvisionedThroughput

record GlobalSecondaryIndex =
  gsi_indexName :: string
  gsi_keySchema :: "KeySchemaElement list"
  gsi_projectionType :: string
  gsi_provisionedThroughput :: ProvisionedThroughput

text \<open>
  A table: its key schema, the declarative (L2) index list \<^verbatim>\<open>table.globalSecondaryIndexes\<close>
  and the raw (L1) list \<^verbatim>\<open>table.table.globalSecondaryIndexes\<close>, which is \<open>None\<close> while it
  is not an array.
\<close>

record Table =
  table_keySchema :: "KeySchemaElement list"
  table_globalSecondaryIndexes :: "GlobalSecondaryIndex list"
  cfnTable_globalSecondaryIndexes :: "GlobalSecondaryIndex list option"

record MappingTemplate =
  template_content :: Expression
  template_name :: string

record Resolver =
  resolver_typeName :: string
  resolver_fieldName :: string
  resolver_resourceId :: string
  resolver_dataSource :: "string option"
  resolver_requestMappingTemplate :: MappingTemplate
  resolver_responseMappingTemplate :: MappingTemplate
  resolver_stack :: "string option"

text \<open>
  What the two functions of \<^verbatim>\<open>resolvers.ts\<close> write to: the tables, by the name of their
  model type, and the resolvers registered under \<open>(typeName, fieldName)\<close>.
\<close>

record TransformerState =
  st_tables :: "string \<rightharpoonup> Table"
  st_resolvers :: "string \<times> string \<rightharpoonup> Resolver"

text \<open>
  What they read and the helpers they import, as parameters: the model-name mapping, the
  transform parameter \<^verbatim>\<open>respectPrimaryKeyAttributesOnConnectionField\<close>, \<^verbatim>\<open>ctx.output.getObject\<close>,
  \<^verbatim>\<open>ctx.api.host.getDataSource\<close>, \<^verbatim>\<open>ctx.stackManager.getStackFor\<close>, the helpers of \<^verbatim>\<open>./utils\<close> and
  \<^verbatim>\<open>./schema\<close> (\<^verbatim>\<open>getConnectionAttributeName\<close>, which reads the same transform parameter,
  \<^verbatim>\<open>getObjectPrimaryKey\<close>, \<^verbatim>\<open>getSortKeyFields\<close>), \<^verbatim>\<open>attributeTypeFromType\<close>,
  \<^verbatim>\<open>attributeTypeFromScalar\<close>, \<^verbatim>\<open>ResolverResourceIDs.ResolverResourceID\<close>, and the constants
  \<^verbatim>\<open>NONE_VALUE\<close>,
  \<^verbatim>\<open>ModelResourceIDs.ModelCompositeKeySeparator()\<close> and those of \<^verbatim>\<open>ResourceConstants\<close>.
\<close>

record TransformerContext =
  getModelNameMapping :: "string \<Rightarrow> string"
  respectPrimaryKeyAttributesOnConnectionField :: bool
  getObject :: "string \<Rightarrow> ObjectTypeDefinitionNode option"
  getDataSource :: "string \<Rightarrow> string option"
  getStackFor :: "string \<Rightarrow> string \<Rightarrow> string"
  getConnectionAttributeName :: "bool \<Rightarrow> string \<Rightarrow> string \<Rightarrow> string \<Rightarrow> string"
  getObjectPrimaryKey :: "ObjectTypeDefinitionNode \<Rightarrow> FieldDefinitionNode"
  getSortKeyFields :: "ObjectTypeDefinitionNode \<Rightarrow> FieldDefinitionNode list"
  attributeTypeFromType :: "TypeNode \<Rightarrow> string"
  attributeTypeFromScalar :: "TypeNode \<Rightarrow> string"
  ResolverResourceID :: "string \<Rightarrow> string \<Rightarrow> string"
  NONE_VALUE :: string
  ModelCompositeKeySeparator :: string
  DynamoDBModelTableReadIOPS :: string
  DynamoDBModelTableWriteIOPS :: string
  ShouldUsePayPerRequestBilling :: string

text \<open>
  Modelled from the spec: \<^verbatim>\<open>getTable\<close> of the transformer core is missing from the sources.
  Section 6 has it obtain the backing table of a related type, and section 7 makes a
  missing table a fatal lookup error.
\<close>

definition getTable :: "TransformerState \<Rightarrow> ObjectTypeDefinitionNode \<Rightarrow> error + Table" where
  "getTable state object =
     (case st_tables state (object_name object) of
        None \<Rightarrow> Inl (Error ''missing table'')
      | Some table \<Rightarrow> Inr table)"

section \<open>The resolver of a singular connection\<close>

definition CONNECTION_STACK :: string where
  "CONNECTION_STACK = ''ConnectionStack''"

definition authFilter :: Expression where
  "authFilter = Ref ''ctx.stash.authFilter''"

definition PARTITION_KEY_VALUE :: string where
  "PARTITION_KEY_VALUE = ''partitionKeyValue''"

definition SORT_KEY_VALUE :: string where
  "SORT_KEY_VALUE = ''sortKeyValue''"

record HasOneDirectiveConfiguration =
  ho_connectionFields :: "string list"
  ho_field :: FieldDefinitionNode
  ho_fields :: "string list"
  ho_object :: ObjectTypeDefinitionNode
  ho_relatedType :: ObjectTypeDefinitionNode
  ho_relatedTypeIndex :: "FieldDefinitionNode list"

text \<open>
  \<^verbatim>\<open>buildKeyValueExpression\<close>. The object is what \<^verbatim>\<open>ctx.output.getObject(...)!\<close> returned; on
  \<^verbatim>\<open>undefined\<close> the read of \<^verbatim>\<open>object.fields\<close> throws. The field name is \<open>None\<close> when the caller
  read it past the end of \<^verbatim>\<open>localFields\<close>.
\<close>

definition buildKeyValueExpression ::
  "TransformerContext \<Rightarrow> string option \<Rightarrow> ObjectTypeDefinitionNode option \<Rightarrow> bool \<Rightarrow>
   error + Expression" where
  "buildKeyValueExpression ctx fieldName object isPartitionKey =
     (case object of
        None \<Rightarrow> Inl (TypeError ''Cannot read properties of undefined (reading fields)'')
      | Some obj \<Rightarrow>
     (let field = (case fieldName of
                     None \<Rightarrow> None
                   | Some n \<Rightarrow> find (\<lambda>it. field_name it = n) (object_fields obj));
          attributeType = (case field of
                             Some f \<Rightarrow> attributeTypeFromScalar ctx (field_type f)
                           | None \<Rightarrow> ''S'')
      in Inr (Ref (''util.parseJson($util.dynamodb.toDynamoDBJson($util.'' @
                   (if attributeType = ''S'' then ''defaultIfNullOrBlank'' else ''defaultIfNull'') @
                   ''('' @
                   (if isPartitionKey then ''$'' @ PARTITION_KEY_VALUE
                    else ''$ctx.source.'' @ interpolate fieldName) @
                   '', \"'' @ NONE_VALUE ctx @ ''\")))''))))"

definition condenseRangeKey :: "TransformerContext \<Rightarrow> string list \<Rightarrow> string" where
  "condenseRangeKey ctx fieldList = join fieldList (ModelCompositeKeySeparator ctx)"

text \<open>The value of \<^verbatim>\<open>:sortKeyName\<close> for a composite sort key (lines 91-99).\<close>

definition condensedSortKeyValue :: "TransformerContext \<Rightarrow> string list \<Rightarrow> string" where
  "condensedSortKeyValue ctx localFields =
     (let rangeKeyFields = drop 1 localFields
      in condenseRangeKey ctx (map (\<lambda>keyField. ''${ctx.source.'' @ keyField @ ''}'') rangeKeyFields))"

definition compositeSortKeyExpression :: "TransformerContext \<Rightarrow> string list \<Rightarrow> Expression" where
  "compositeSortKeyExpression ctx localFields =
     Ref (''util.parseJson($util.dynamodb.toDynamoDBJson($util.defaultIfNullOrBlank(\"'' @
          condensedSortKeyValue ctx localFields @ ''\", \"'' @ NONE_VALUE ctx @ ''\")))'')"

text \<open>The request program (lines 115-157).\<close>

definition getItemRequestExpression ::
  "string list \<Rightarrow> string list \<Rightarrow> (string \<times> Expression) list \<Rightarrow> (string \<times> Expression) list \<Rightarrow>
   Expression" where
  "getItemRequestExpression localFields totalExpressions totalExpressionNames totalExpressionValues =
     CompoundExpression
       [Iff (Ref ''ctx.stash.deniedField'') (Raw ''#return($util.toJson(null))''),
        SetNode (Ref PARTITION_KEY_VALUE)
          (MethodCall (Ref ''util.defaultIfNull'')
             [Ref (''ctx.stash.connectionAttibutes.get(\"'' @
                   interpolate (at_index localFields 0) @ ''\")''),
              Ref (''ctx.source.'' @ interpolate (at_index localFields 0))]),
        IfElse
          (Or (MethodCall (Ref ''util.isNull'') [Ref PARTITION_KEY_VALUE] #
               map (\<lambda>f. Raw (''$util.isNull($ctx.source.'' @ f @ '')'')) (drop 1 localFields)))
          (Raw ''#return'')
          (CompoundExpression
             [SetNode (Ref ''GetRequest'')
                (Obj [(''version'', Str ''2018-05-29''), (''operation'', Str ''Query'')]),
              Qref (MethodCall (Ref ''GetRequest.put'')
                      [Str ''query'',
                       Obj [(''expression'', Str (join totalExpressions '' AND '')),
                            (''expressionNames'', Obj totalExpressionNames),
                            (''expressionValues'', Obj totalExpressionValues)]]),
              Iff (NotNode (IsNullOrEmpty authFilter))
                (Qref (MethodCall (Ref ''GetRequest.put'')
                         [Str ''filter'',
                          MethodCall (Ref ''util.parseJson'')
                            [MethodCall (Ref ''util.transform.toDynamoDBFilterExpression'')
                               [authFilter]]])),
              ToJson (Ref ''GetRequest'')])]"

text \<open>
  Modelled from the spec: \<^verbatim>\<open>DynamoDBMappingTemplate.dynamoDBResponse\<close> of
  graphql-mapping-template is missing from the sources. Section 7 keeps a failed lookup apart
  from the data-level outcomes of the response program, which section 4.4 lists for a result
  of the data source. The wrapper is the guard that does so, as the library builds it: when
  the data source reported an error (\<^verbatim>\<open>$ctx.error\<close>) the program raises it with
  \<^verbatim>\<open>$util.error\<close>, and only otherwise runs the given expression.
\<close>

definition dynamoDBResponse :: "bool \<Rightarrow> Expression \<Rightarrow> Expression" where
  "dynamoDBResponse isSyncEnabled expression =
     (let errorExpression =
            (if isSyncEnabled
             then Ref ''util.error($ctx.error.message, $ctx.error.type, $ctx.result)''
             else Ref ''util.error($ctx.error.message, $ctx.error.type)'')
      in CompoundExpression [IfElse (Ref ''ctx.error'') errorExpression expression])"

text \<open>
  The expression that the response program hands to \<^verbatim>\<open>dynamoDBResponse\<close> (lines 165-172).
\<close>

definition getItemResponseExpression :: Expression where
  "getItemResponseExpression =
     IfElse
       (And [NotNode (Ref ''ctx.result.items.isEmpty()''),
             Equals (Ref ''ctx.result.scannedCount'') (IntNode 1)])
       (ToJson (Ref ''ctx.result.items[0]''))
       (CompoundExpression
          [Iff (And [Ref ''ctx.result.items.isEmpty()'',
                     Equals (Ref ''ctx.result.scannedCount'') (IntNode 1)])
             (Ref ''util.unauthorized()''),
           ToJson Nul])"

text \<open>
  \<^verbatim>\<open>keySchema[i].attributeName\<close>: a read of a property of \<^verbatim>\<open>undefined\<close> throws.
\<close>

definition keySchemaAttributeName :: "KeySchemaElement list \<Rightarrow> nat \<Rightarrow> error + string" where
  "keySchemaAttributeName keySchema i =
     (case at_index keySchema i of
        None \<Rightarrow> Inl (TypeError ''Cannot read properties of undefined (reading attributeName)'')
      | Some element \<Rightarrow> Inr (attributeName element))"

text \<open>
  The sort-key part of the key condition (lines 89-105): what is pushed on
  \<^verbatim>\<open>totalExpressions\<close> and entered in \<^verbatim>\<open>totalExpressionNames\<close> and \<^verbatim>\<open>totalExpressionValues\<close>.
\<close>

definition sortKeyCondition ::
  "TransformerContext \<Rightarrow> HasOneDirectiveConfiguration \<Rightarrow> string list \<Rightarrow> KeySchemaElement list \<Rightarrow>
   error + (string list \<times> (string \<times> Expression) list \<times> (string \<times> Expression) list)" where
  "sortKeyCondition ctx config localFields keySchema =
     (if length (ho_relatedTypeIndex config) > 2 then
        (case keySchemaAttributeName keySchema 1 of
           Inl e \<Rightarrow> Inl e
         | Inr sortKeyName \<Rightarrow>
             Inr ([''#sortKeyName = :sortKeyName''],
                  [(''#sortKeyName'', Str sortKeyName)],
                  [('':sortKeyName'', compositeSortKeyExpression ctx localFields)]))
      else if length (ho_relatedTypeIndex config) = 2 then
        (case keySchemaAttributeName keySchema 1 of
           Inl e \<Rightarrow> Inl e
         | Inr sortKeyName \<Rightarrow>
        (case buildKeyValueExpression ctx (at_index localFields 1)
                (getObject ctx (object_name (ho_object config))) False of
           Inl e \<Rightarrow> Inl e
         | Inr sortKeyValue \<Rightarrow>
             Inr ([''#sortKeyName = :sortKeyName''],
                  [(''#sortKeyName'', Str sortKeyName)],
                  [('':sortKeyName'', sortKeyValue)])))
      else Inr ([], [], []))"

text \<open>The local key fields of the relation (line 75).\<close>

definition localFieldsOf :: "HasOneDirectiveConfiguration \<Rightarrow> string list" where
  "localFieldsOf config =
     (if length (ho_fields config) > 0 then ho_fields config else ho_connectionFields config)"

text \<open>
  \<^verbatim>\<open>makeGetItemConnectionWithKeyResolver\<close>. Every throw comes before the one write, the
  registration of the resolver, so a failure leaves the state as it was.
\<close>

definition makeGetItemConnectionWithKeyResolver ::
  "TransformerContext \<Rightarrow> HasOneDirectiveConfiguration \<Rightarrow> TransformerState \<Rightarrow>
   error + TransformerState" where
  "makeGetItemConnectionWithKeyResolver ctx config state =
     (if length (ho_relatedTypeIndex config) = 0
      then Inl (Error ''Expected relatedType index fields to be set for connection.'')
      else
     (let localFields = localFieldsOf config in
      case getTable state (ho_relatedType config) of
        Inl e \<Rightarrow> Inl e
      | Inr table \<Rightarrow>
     (let keySchema = table_keySchema table;
          dataSource = getDataSource ctx (object_name (ho_relatedType config) @ ''Table'')
      in
      case keySchemaAttributeName keySchema 0 of
        Inl e \<Rightarrow> Inl e
      | Inr partitionKeyName \<Rightarrow>
     (case buildKeyValueExpression ctx (at_index localFields 0)
             (getObject ctx (object_name (ho_object config))) True of
        Inl e \<Rightarrow> Inl e
      | Inr partitionValue \<Rightarrow>
     (case sortKeyCondition ctx config localFields keySchema of
        Inl e \<Rightarrow> Inl e
      | Inr (sortExpressions, sortNames, sortValues) \<Rightarrow>
     (let totalExpressions = [''#partitionKey = :partitionValue''] @ sortExpressions;
          totalExpressionNames = [(''#partitionKey'', Str partitionKeyName)] @ sortNames;
          totalExpressionValues = [('':partitionValue'', partitionValue)] @ sortValues;
          resolverResourceId =
            ResolverResourceID ctx (object_name (ho_object config)) (field_name (ho_field config));
          resolver =
            \<lparr>resolver_typeName = object_name (ho_object config),
             resolver_fieldName = field_name (ho_field config),
             resolver_resourceId = resolverResourceId,
             resolver_dataSource = dataSource,
             resolver_requestMappingTemplate =
               \<lparr>template_content =
                  getItemRequestExpression localFields totalExpressions totalExpressionNames
                    totalExpressionValues,
                template_name = object_name (ho_object config) @ ''.'' @
                  field_name (ho_field config) @ ''.req.vtl''\<rparr>,
             resolver_responseMappingTemplate =
               \<lparr>template_content = dynamoDBResponse False getItemResponseExpression,
                template_name = object_name (ho_object config) @ ''.'' @
                  field_name (ho_field config) @ ''.res.vtl''\<rparr>,
             resolver_stack = Some (getStackFor ctx resolverResourceId CONNECTION_STACK)\<rparr>
      in Inr (state\<lparr>st_resolvers := (st_resolvers state)
                ((object_name (ho_object config), field_name (ho_field config)) \<mapsto> resolver)\<rparr>)))))))"

section \<open>The secondary-index reconciler\<close>

record HasManyDirectiveConfiguration =
  hm_field :: FieldDefinitionNode
  hm_object :: ObjectTypeDefinitionNode
  hm_relatedType :: ObjectTypeDefinitionNode
  hm_fields :: "string list"
  hm_indexName :: "string option"

text \<open>
  \<^verbatim>\<open>indexName\<close> in a condition: \<^verbatim>\<open>undefined\<close> and the empty string are falsy.
\<close>

definition truthy_string :: "string option \<Rightarrow> bool" where
  "truthy_string s = (case s of None \<Rightarrow> False | Some v \<Rightarrow> v \<noteq> [])"

record AttributeDefinition =
  attr_name :: string
  attr_type :: string

record GlobalSecondaryIndexProps =
  props_indexName :: string
  props_projectionType :: string
  props_partitionKey :: AttributeDefinition
  props_sortKey :: "AttributeDefinition option"
  props_readCapacity :: string
  props_writeCapacity :: string

text \<open>
  Modelled from the spec: \<^verbatim>\<open>table.addGlobalSecondaryIndex\<close> belongs to the table construct,
  which is missing from the sources. Section 4.5 has the new index appended to the
  declarative representation, and section 3 gives the index its name, its partition key, its
  optional sort key, the projection and the two capacities; the key schema lists the
  partition key as \<^verbatim>\<open>HASH\<close> and then the sort key as \<^verbatim>\<open>RANGE\<close>.
\<close>

definition declarativeIndex :: "GlobalSecondaryIndexProps \<Rightarrow> GlobalSecondaryIndex" where
  "declarativeIndex props =
     \<lparr>gsi_indexName = props_indexName props,
      gsi_keySchema =
        \<lparr>attributeName = attr_name (props_partitionKey props), keyType = ''HASH''\<rparr> #
        (case props_sortKey props of
           None \<Rightarrow> []
         | Some sortKey \<Rightarrow> [\<lparr>attributeName = attr_name sortKey, keyType = ''RANGE''\<rparr>]),
      gsi_projectionType = props_projectionType props,
      gsi_provisionedThroughput =
        Capacity (props_readCapacity props) (props_writeCapacity props)\<rparr>"

definition addGlobalSecondaryIndex :: "Table \<Rightarrow> GlobalSecondaryIndexProps \<Rightarrow> Table" where
  "addGlobalSecondaryIndex table props =
     table\<lparr>table_globalSecondaryIndexes :=
             table_globalSecondaryIndexes table @ [declarativeIndex props]\<rparr>"

definition appendIndex ::
  "GlobalSecondaryIndex list option \<Rightarrow> GlobalSecondaryIndex \<Rightarrow> GlobalSecondaryIndex list" where
  "appendIndex list newIndex =
     (case list of
        Some array \<Rightarrow> array @ [newIndex]
      | None \<Rightarrow> [newIndex])"

record SortKeyAttributeDefinitions =
  sortKeyName :: string
  sortKeyType :: string

definition getConnectedSortKeyAttributeDefinitionsForImplicitHasManyObject ::
  "TransformerContext \<Rightarrow> ObjectTypeDefinitionNode \<Rightarrow> FieldDefinitionNode \<Rightarrow>
   SortKeyAttributeDefinitions option" where
  "getConnectedSortKeyAttributeDefinitionsForImplicitHasManyObject ctx object hasManyField =
     (let sortKeyFields = getSortKeyFields ctx object in
      if length sortKeyFields = 0 then None
      else
     (let mappedObjectName = getModelNameMapping ctx (object_name object);
          connectedSortKeyFieldNames =
            map (\<lambda>sortKeyField.
                   getConnectionAttributeName ctx
                     (respectPrimaryKeyAttributesOnConnectionField ctx) mappedObjectName
                     (field_name hasManyField) (field_name sortKeyField))
                sortKeyFields
      in
      if length connectedSortKeyFieldNames = 1 then
        Some \<lparr>sortKeyName = connectedSortKeyFieldNames ! 0,
              sortKeyType = attributeTypeFromType ctx (field_type (sortKeyFields ! 0))\<rparr>
      else if length sortKeyFields > 1 then
        Some \<lparr>sortKeyName = condenseRangeKey ctx connectedSortKeyFieldNames,
              sortKeyType = ''S''\<rparr>
      else None))"

text \<open>The index name of line 203.\<close>

definition connectionIndexName ::
  "TransformerContext \<Rightarrow> HasManyDirectiveConfiguration \<Rightarrow> string" where
  "connectionIndexName ctx config =
     ''gsi-'' @ getModelNameMapping ctx (object_name (hm_object config)) @ ''.'' @
     field_name (hm_field config)"

text \<open>The argument of \<^verbatim>\<open>table.addGlobalSecondaryIndex\<close> (lines 211-239).\<close>

definition connectionIndexProps ::
  "TransformerContext \<Rightarrow> HasManyDirectiveConfiguration \<Rightarrow> string \<Rightarrow> GlobalSecondaryIndexProps"
  where
  "connectionIndexProps ctx config indexName =
     (let mappedObjectName = getModelNameMapping ctx (object_name (hm_object config));
          respect = respectPrimaryKeyAttributesOnConnectionField ctx;
          partitionKeyName =
            getConnectionAttributeName ctx respect mappedObjectName
              (field_name (hm_field config))
              (field_name (getObjectPrimaryKey ctx (hm_object config)));
          partitionKeyType =
            (if respect
             then attributeTypeFromType ctx (field_type (getObjectPrimaryKey ctx (hm_object config)))
             else ''S'');
          sortKeyAttributeDefinitions =
            (if respect
             then getConnectedSortKeyAttributeDefinitionsForImplicitHasManyObject ctx
                    (hm_object config) (hm_field config)
             else None)
      in \<lparr>props_indexName = indexName,
          props_projectionType = ''ALL'',
          props_partitionKey = \<lparr>attr_name = partitionKeyName, attr_type = partitionKeyType\<rparr>,
          props_sortKey =
            (case sortKeyAttributeDefinitions of
               Some d \<Rightarrow> Some \<lparr>attr_name = sortKeyName d, attr_type = sortKeyType d\<rparr>
             | None \<Rightarrow> None),
          props_readCapacity = DynamoDBModelTableReadIOPS ctx,
          props_writeCapacity = DynamoDBModelTableWriteIOPS ctx\<rparr>)"

text \<open>The raw entry handed to \<^verbatim>\<open>appendIndex\<close> (lines 247-255).\<close>

definition rawIndex ::
  "TransformerContext \<Rightarrow> string \<Rightarrow> KeySchemaElement list \<Rightarrow> GlobalSecondaryIndex" where
  "rawIndex ctx indexName keySchema =
     \<lparr>gsi_indexName = indexName,
      gsi_keySchema = keySchema,
      gsi_projectionType = ''ALL'',
      gsi_provisionedThroughput =
        ConditionIf (ShouldUsePayPerRequestBilling ctx) ''AWS::NoValue''
          (Capacity (DynamoDBModelTableReadIOPS ctx) (DynamoDBModelTableWriteIOPS ctx))\<rparr>"

text \<open>
  \<^verbatim>\<open>updateTableForConnection\<close> writes to the configuration (\<^verbatim>\<open>config.indexName\<close>) and to the
  table, so it returns both. \<^verbatim>\<open>gsis\<close> is the array that \<^verbatim>\<open>addGlobalSecondaryIndex\<close> appends
  to, so the \<^verbatim>\<open>find\<close> after the call reads the extended list; a miss there would throw on
  \<^verbatim>\<open>gsi.keySchema\<close>. The only other throw, a missing table, comes before any write.
\<close>

definition updateTableForConnection ::
  "TransformerContext \<Rightarrow> HasManyDirectiveConfiguration \<Rightarrow> TransformerState \<Rightarrow>
   error + (HasManyDirectiveConfiguration \<times> TransformerState)" where
  "updateTableForConnection ctx config state =
     (if truthy_string (hm_indexName config) \<or> length (hm_fields config) > 0
      then Inr (config, state)
      else
     (case getTable state (hm_relatedType config) of
        Inl e \<Rightarrow> Inl e
      | Inr table \<Rightarrow>
     (let gsis = table_globalSecondaryIndexes table;
          indexName = connectionIndexName ctx config;
          config1 = config\<lparr>hm_indexName := Some indexName\<rparr>
      in
      if list_ex (\<lambda>gsi. gsi_indexName gsi = indexName) gsis then Inr (config1, state)
      else
     (let table1 = addGlobalSecondaryIndex table (connectionIndexProps ctx config indexName) in
      case find (\<lambda>gsi. gsi_indexName gsi = indexName) (table_globalSecondaryIndexes table1) of
        None \<Rightarrow> Inl (TypeError ''Cannot read properties of undefined (reading keySchema)'')
      | Some gsi \<Rightarrow>
     (let table2 = table1\<lparr>cfnTable_globalSecondaryIndexes := Some
            (appendIndex (cfnTable_globalSecondaryIndexes table1)
               (rawIndex ctx indexName (gsi_keySchema gsi)))\<rparr>
      in Inr (config1,
              state\<lparr>st_tables := (st_tables state)
                (object_name (hm_relatedType config) \<mapsto> table2)\<rparr>))))))"

text \<open>
  The invariant of the two index lists: every declarative entry has a raw entry with the
  same name and the same key schema.
\<close>

definition consistent :: "Table \<Rightarrow> bool" where
  "consistent table =
     list_all (\<lambda>l2.
        list_ex (\<lambda>l1. gsi_indexName l1 = gsi_indexName l2 \<and> gsi_keySchema l1 = gsi_keySchema l2)
          (case cfnTable_globalSecondaryIndexes table of None \<Rightarrow> [] | Some array \<Rightarrow> array))
       (table_globalSecondaryIndexes table)"

definition indexCount :: "string \<Rightarrow> Table \<Rightarrow> nat" where
  "indexCount indexName table =
     length (filter (\<lambda>gsi. gsi_indexName gsi = indexName) (table_globalSecondaryIndexes table))"

section \<open>Running a mapping template\<close>

text \<open>
  The generated programs run in the resolver runtime, outside the compiler. To state what a
  generated program does, the tree is given the meaning that its printed text has there: a
  value for each expression, read from the resolver context, and for each statement the
  values that it renders. \<open>VOpaque\<close> stands for the result of a reference or call that the
  model does not interpret.
\<close>

datatype val =
    VNull
  | VBool bool
  | VInt int
  | VString string
  | VList "val list"
  | VMap "(string \<times> val) list"
  | VOpaque string

text \<open>
  The resolver context of one invocation: the stash (\<^verbatim>\<open>deniedField\<close>, the entries of
  \<^verbatim>\<open>connectionAttibutes\<close>, \<^verbatim>\<open>authFilter\<close>), the fields of the source object, and the result of
  the data source (its items and its scanned count) with the error that the data source
  reported, null when there is none. An absent entry reads as null.
\<close>

record runtime =
  rt_deniedField :: val
  rt_connectionAttibutes :: "string \<Rightarrow> val"
  rt_authFilter :: val
  rt_source :: "string \<Rightarrow> val"
  rt_items :: "val list"
  rt_scannedCount :: val
  rt_error :: val

type_synonym vars = "string \<rightharpoonup> val"

text \<open>
  What stops a template before its end: \<^verbatim>\<open>#return\<close>, which resolves the field locally with
  the given value and sends nothing to the data source, \<^verbatim>\<open>$util.unauthorized()\<close>, and
  \<^verbatim>\<open>$util.error(...)\<close>, which raises the error of the data source.
\<close>

datatype halt = Returned val | Unauthorized | Raised val

text \<open>A condition holds unless its value is null or false.\<close>

definition truthy :: "val \<Rightarrow> bool" where
  "truthy v = (v \<noteq> VNull \<and> v \<noteq> VBool False)"

fun stripPrefix :: "string \<Rightarrow> string \<Rightarrow> string option" where
  "stripPrefix [] s = Some s"
| "stripPrefix (p # ps) [] = None"
| "stripPrefix (p # ps) (c # cs) = (if p = c then stripPrefix ps cs else None)"

definition stripSuffix :: "string \<Rightarrow> string \<Rightarrow> string option" where
  "stripSuffix suffix s = map_option rev (stripPrefix (rev suffix) (rev s))"

definition between :: "string \<Rightarrow> string \<Rightarrow> string \<Rightarrow> string option" where
  "between prefix suffix s =
     (case stripPrefix prefix s of None \<Rightarrow> None | Some rest \<Rightarrow> stripSuffix suffix rest)"

text \<open>
  The value of a reference \<^verbatim>\<open>$path\<close>: a template variable if one of that name is set,
  otherwise what the path reads from the context.
\<close>

definition resolveRef :: "runtime \<Rightarrow> vars \<Rightarrow> string \<Rightarrow> halt + val" where
  "resolveRef rt vars path =
     (case vars path of
        Some v \<Rightarrow> Inr v
      | None \<Rightarrow>
          if path = ''ctx.stash.deniedField'' then Inr (rt_deniedField rt)
          else if path = ''ctx.stash.authFilter'' then Inr (rt_authFilter rt)
          else if path = ''ctx.result.items.isEmpty()'' then Inr (VBool (rt_items rt = []))
          else if path = ''ctx.result.items[0]''
            then Inr (case rt_items rt of [] \<Rightarrow> VNull | item # rest \<Rightarrow> item)
          else if path = ''ctx.result.scannedCount'' then Inr (rt_scannedCount rt)
          else if path = ''util.unauthorized()'' then Inl Unauthorized
          else if path = ''ctx.error'' then Inr (rt_error rt)
          else if stripPrefix ''util.error($ctx.error.message, $ctx.error.type'' path \<noteq> None
            then Inl (Raised (rt_error rt))
          else
            (case between ''ctx.stash.connectionAttibutes.get(\"'' ''\")'' path of
               Some key \<Rightarrow> Inr (rt_connectionAttibutes rt key)
             | None \<Rightarrow>
                 (case stripPrefix ''ctx.source.'' path of
                    Some f \<Rightarrow> Inr (rt_source rt f)
                  | None \<Rightarrow> Inr (VOpaque path))))"

text \<open>
  The raw texts that the resolver emits. \<^verbatim>\<open>#return\<close> alone returns null; with an argument
  it returns the value of the argument, and \<^verbatim>\<open>$util.toJson(null)\<close> is the string \<^verbatim>\<open>null\<close>.
\<close>

definition evalRaw :: "runtime \<Rightarrow> string \<Rightarrow> halt + val" where
  "evalRaw rt text =
     (if text = ''#return'' then Inl (Returned VNull)
      else if text = ''#return($util.toJson(null))'' then Inl (Returned (VString ''null''))
      else
        (case between ''$util.isNull($ctx.source.'' '')'' text of
           Some f \<Rightarrow> Inr (VBool (rt_source rt f = VNull))
         | None \<Rightarrow> Inr (VOpaque text)))"

fun putEntry :: "string \<Rightarrow> val \<Rightarrow> (string \<times> val) list \<Rightarrow> (string \<times> val) list" where
  "putEntry k v [] = [(k, v)]"
| "putEntry k v ((k', v') # rest) =
     (if k = k' then (k, v) # rest else (k', v') # putEntry k v rest)"

text \<open>
  A method call on evaluated arguments: \<^verbatim>\<open>$util.defaultIfNull\<close>, \<^verbatim>\<open>$util.isNull\<close> and
  \<^verbatim>\<open>put\<close> on a map held in a template variable; any other call is left uninterpreted.
\<close>

definition callMethod :: "string \<Rightarrow> val list \<Rightarrow> vars \<Rightarrow> val \<times> vars" where
  "callMethod name args vars =
     (if name = ''util.defaultIfNull'' then
        (case args of
           [a, b] \<Rightarrow> (if a = VNull then b else a, vars)
         | _ \<Rightarrow> (VOpaque name, vars))
      else if name = ''util.isNull'' then
        (case args of
           [a] \<Rightarrow> (VBool (a = VNull), vars)
         | _ \<Rightarrow> (VOpaque name, vars))
      else
        (case stripSuffix ''.put'' name of
           Some receiver \<Rightarrow>
             (case (vars receiver, args) of
                (Some (VMap entries), [VString k, v]) \<Rightarrow>
                  (VNull, vars(receiver \<mapsto> VMap (putEntry k v entries)))
              | _ \<Rightarrow> (VOpaque name, vars))
         | None \<Rightarrow> (VOpaque name, vars)))"

definition isNullOrEmptyVal :: "val \<Rightarrow> bool" where
  "isNullOrEmptyVal v = (v = VNull \<or> v = VString [] \<or> v = VList [] \<or> v = VMap [])"

text \<open>
  \<open>evalE\<close> gives the value of an expression and \<open>render\<close> the values that a statement
  writes to the output of the template, both threading the template variables. A conjunction
  and a disjunction stop at the first operand that decides them.
\<close>

fun evalE :: "runtime \<Rightarrow> Expression \<Rightarrow> vars \<Rightarrow> halt + (val \<times> vars)"
and evalArgs :: "runtime \<Rightarrow> Expression list \<Rightarrow> vars \<Rightarrow> halt + (val list \<times> vars)"
and evalProps ::
  "runtime \<Rightarrow> (string \<times> Expression) list \<Rightarrow> vars \<Rightarrow> halt + ((string \<times> val) list \<times> vars)"
and evalAnd :: "runtime \<Rightarrow> Expression list \<Rightarrow> vars \<Rightarrow> halt + (bool \<times> vars)"
and evalOr :: "runtime \<Rightarrow> Expression list \<Rightarrow> vars \<Rightarrow> halt + (bool \<times> vars)"
where
  "evalE rt (Ref path) vars =
     (case resolveRef rt vars path of Inl h \<Rightarrow> Inl h | Inr v \<Rightarrow> Inr (v, vars))"
| "evalE rt (Raw text) vars =
     (case evalRaw rt text of Inl h \<Rightarrow> Inl h | Inr v \<Rightarrow> Inr (v, vars))"
| "evalE rt (Str s) vars = Inr (VString s, vars)"
| "evalE rt (IntNode i) vars = Inr (VInt i, vars)"
| "evalE rt Nul vars = Inr (VNull, vars)"
| "evalE rt (And es) vars =
     (case evalAnd rt es vars of Inl h \<Rightarrow> Inl h | Inr (b, vars') \<Rightarrow> Inr (VBool b, vars'))"
| "evalE rt (Or es) vars =
     (case evalOr rt es vars of Inl h \<Rightarrow> Inl h | Inr (b, vars') \<Rightarrow> Inr (VBool b, vars'))"
| "evalE rt (NotNode e) vars =
     (case evalE rt e vars of Inl h \<Rightarrow> Inl h | Inr (v, vars') \<Rightarrow> Inr (VBool (\<not> truthy v), vars'))"
| "evalE rt (Equals a b) vars =
     (case evalE rt a vars of
        Inl h \<Rightarrow> Inl h
      | Inr (va, vars') \<Rightarrow>
          (case evalE rt b vars' of
             Inl h \<Rightarrow> Inl h
           | Inr (vb, vars'') \<Rightarrow> Inr (VBool (va = vb), vars'')))"
| "evalE rt (MethodCall m args) vars =
     (case evalArgs rt args vars of
        Inl h \<Rightarrow> Inl h
      | Inr (vs, vars') \<Rightarrow>
          (case m of
             Ref name \<Rightarrow> Inr (callMethod name vs vars')
           | _ \<Rightarrow> Inr (VOpaque ''call'', vars')))"
| "evalE rt (Obj props) vars =
     (case evalProps rt props vars of
        Inl h \<Rightarrow> Inl h
      | Inr (entries, vars') \<Rightarrow> Inr (VMap entries, vars'))"
| "evalE rt (ToJson e) vars = evalE rt e vars"
| "evalE rt (IsNullOrEmpty e) vars =
     (case evalE rt e vars of
        Inl h \<Rightarrow> Inl h
      | Inr (v, vars') \<Rightarrow> Inr (VBool (isNullOrEmptyVal v), vars'))"
| "evalE rt (Iff c e) vars = Inr (VOpaque ''statement'', vars)"
| "evalE rt (IfElse c a b) vars = Inr (VOpaque ''statement'', vars)"
| "evalE rt (SetNode x e) vars = Inr (VOpaque ''statement'', vars)"
| "evalE rt (Qref e) vars = Inr (VOpaque ''statement'', vars)"
| "evalE rt (CompoundExpression es) vars = Inr (VOpaque ''statement'', vars)"
| "evalArgs rt [] vars = Inr ([], vars)"
| "evalArgs rt (e # es) vars =
     (case evalE rt e vars of
        Inl h \<Rightarrow> Inl h
      | Inr (v, vars') \<Rightarrow>
          (case evalArgs rt es vars' of
             Inl h \<Rightarrow> Inl h
           | Inr (vs, vars'') \<Rightarrow> Inr (v # vs, vars'')))"
| "evalProps rt [] vars = Inr ([], vars)"
| "evalProps rt ((k, e) # props) vars =
     (case evalE rt e vars of
        Inl h \<Rightarrow> Inl h
      | Inr (v, vars') \<Rightarrow>
          (case evalProps rt props vars' of
             Inl h \<Rightarrow> Inl h
           | Inr (entries, vars'') \<Rightarrow> Inr ((k, v) # entries, vars'')))"
| "evalAnd rt [] vars = Inr (True, vars)"
| "evalAnd rt (e # es) vars =
     (case evalE rt e vars of
        Inl h \<Rightarrow> Inl h
      | Inr (v, vars') \<Rightarrow> if truthy v then evalAnd rt es vars' else Inr (False, vars'))"
| "evalOr rt [] vars = Inr (False, vars)"
| "evalOr rt (e # es) vars =
     (case evalE rt e vars of
        Inl h \<Rightarrow> Inl h
      | Inr (v, vars') \<Rightarrow> if truthy v then Inr (True, vars') else evalOr rt es vars')"

fun render :: "runtime \<Rightarrow> Expression \<Rightarrow> vars \<Rightarrow> halt + (val list \<times> vars)"
and renderAll :: "runtime \<Rightarrow> Expression list \<Rightarrow> vars \<Rightarrow> halt + (val list \<times> vars)"
where
  "render rt (Iff c e) vars =
     (case evalE rt c vars of
        Inl h \<Rightarrow> Inl h
      | Inr (v, vars') \<Rightarrow> if truthy v then render rt e vars' else Inr ([], vars'))"
| "render rt (IfElse c a b) vars =
     (case evalE rt c vars of
        Inl h \<Rightarrow> Inl h
      | Inr (v, vars') \<Rightarrow> if truthy v then render rt a vars' else render rt b vars')"
| "render rt (SetNode x e) vars =
     (case evalE rt e vars of
        Inl h \<Rightarrow> Inl h
      | Inr (v, vars') \<Rightarrow>
          (case x of
             Ref name \<Rightarrow> Inr ([], vars'(name \<mapsto> v))
           | _ \<Rightarrow> Inr ([], vars')))"
| "render rt (Qref e) vars =
     (case evalE rt e vars of Inl h \<Rightarrow> Inl h | Inr (v, vars') \<Rightarrow> Inr ([], vars'))"
| "render rt (CompoundExpression es) vars = renderAll rt es vars"
| "render rt e vars =
     (case evalE rt e vars of Inl h \<Rightarrow> Inl h | Inr (v, vars') \<Rightarrow> Inr ([v], vars'))"
| "renderAll rt [] vars = Inr ([], vars)"
| "renderAll rt (e # es) vars =
     (case render rt e vars of
        Inl h \<Rightarrow> Inl h
      | Inr (out, vars') \<Rightarrow>
          (case renderAll rt es vars' of
             Inl h \<Rightarrow> Inl h
           | Inr (out', vars'') \<Rightarrow> Inr (out @ out', vars'')))"

text \<open>
  The value that the request program of a singular connection assigns to
  \<^verbatim>\<open>$partitionKeyValue\<close>: the connection attribute of the stash unless it is null, then the
  field of the source.
\<close>

definition partitionKeyValue :: "runtime \<Rightarrow> string \<Rightarrow> val" where
  "partitionKeyValue rt f =
     (if rt_connectionAttibutes rt f = VNull then rt_source rt f else rt_connectionAttibutes rt f)"

text \<open>
  The outcome of a program: the values it rendered (the request sent to the data source,
  for a request program; the field's value, for a response program), a local return, the
  unauthorized error, or the error of the data source raised again.
\<close>

datatype outcome = Output "val list" | LocalReturn val | UnauthorizedError | ErrorRaised val

definition runTemplate :: "runtime \<Rightarrow> Expression \<Rightarrow> outcome" where
  "runTemplate rt program =
     (case render rt program Map.empty of
        Inl (Returned v) \<Rightarrow> LocalReturn v
      | Inl Unauthorized \<Rightarrow> UnauthorizedError
      | Inl (Raised e) \<Rightarrow> ErrorRaised e
      | Inr (out, vars) \<Rightarrow> Output out)"

text \<open>Did the program return locally, whatever the value?\<close>

fun isLocalReturn :: "outcome \<Rightarrow> bool" where
  "isLocalReturn (LocalReturn v) = True"
| "isLocalReturn other = False"

section \<open>An example schema\<close>

text \<open>
  One instance of the validator's parameters, for the examples: the type predicates as
  graphql-transformer-common defines them on the AST, a self-reference check on the
  sort-key field names, and an owner rule on the field \<^verbatim>\<open>owner\<close>.
\<close>

fun example_isNonNullType :: "TypeNode \<Rightarrow> bool" where
  "example_isNonNullType (NonNullType t) = True"
| "example_isNonNullType t = False"

fun example_isListType :: "TypeNode \<Rightarrow> bool" where
  "example_isListType (NonNullType t) = example_isListType t"
| "example_isListType (ListType t) = True"
| "example_isListType (NamedType n) = False"

fun example_isScalarOrEnum :: "TypeNode \<Rightarrow> EnumTypeDefinitionNode list \<Rightarrow> bool" where
  "example_isScalarOrEnum (NonNullType t) enums = example_isScalarOrEnum t enums"
| "example_isScalarOrEnum (ListType t) enums = example_isScalarOrEnum t enums"
| "example_isScalarOrEnum (NamedType n) enums =
     (n \<in> set enums \<or> n \<in> set [''String'', ''Int'', ''Float'', ''Boolean'', ''ID''])"

definition example_env :: validator_env where
  "example_env =
     \<lparr>isNonNullType = example_isNonNullType,
      isListType = example_isListType,
      isScalarOrEnum = example_isScalarOrEnum,
      validateNotSelfReferencing = (\<lambda>config.
         if field_name (cfg_field config) \<in> set (cfg_sortKeyFields config)
         then Some (InvalidDirectiveError ''cannot reference itself'') else None),
      validateNotOwnerAuth = (\<lambda>sortKeyField config. sortKeyField \<noteq> ''owner''),
      enumDefinitions = []\<rparr>"

definition example_id :: FieldDefinitionNode where
  "example_id = \<lparr>field_id = 0, field_name = ''id'', field_type = NonNullType (NamedType ''ID''),
                 field_directives = [\<lparr>directive_name = ''primaryKey''\<rparr>]\<rparr>"

definition example_createdAt :: FieldDefinitionNode where
  "example_createdAt = \<lparr>field_id = 1, field_name = ''createdAt'',
                        field_type = NamedType ''String'', field_directives = []\<rparr>"

definition example_owner :: FieldDefinitionNode where
  "example_owner = \<lparr>field_id = 2, field_name = ''owner'',
                    field_type = NonNullType (NamedType ''String''), field_directives = []\<rparr>"

definition example_sku :: FieldDefinitionNode where
  "example_sku = \<lparr>field_id = 3, field_name = ''sku'',
                  field_type = NonNullType (NamedType ''String''),
                  field_directives = [\<lparr>directive_name = ''primaryKey''\<rparr>]\<rparr>"

text \<open>
  \<^verbatim>\<open>type Test @model { id: ID! @primaryKey(...) createdAt: String owner: String! }\<close>
\<close>

definition example_Test :: ObjectTypeDefinitionNode where
  "example_Test = \<lparr>object_name = ''Test'',
                   object_fields = [example_id, example_createdAt, example_owner],
                   object_directives = [\<lparr>directive_name = ''model''\<rparr>]\<rparr>"

text \<open>
  \<^verbatim>\<open>type Item @model { id: ID! @primaryKey sku: String! @primaryKey }\<close>
\<close>

definition example_Item :: ObjectTypeDefinitionNode where
  "example_Item = \<lparr>object_name = ''Item'',
                   object_fields = [example_id, example_sku],
                   object_directives = [\<lparr>directive_name = ''model''\<rparr>]\<rparr>"

definition example_primaryKey :: DirectiveNode where
  "example_primaryKey = \<lparr>directive_name = ''primaryKey''\<rparr>"

text \<open>
  \<^verbatim>\<open>type Post @model { id: ID! @primaryKey(sortKeyFields: ["title", "createdOn"])
  title: String! createdOn: String! comments: [Comment] @hasMany editor: Editor @hasOne }\<close>,
  with \<^verbatim>\<open>Comment\<close> keyed by \<^verbatim>\<open>id\<close> and \<^verbatim>\<open>Editor\<close> keyed by \<^verbatim>\<open>id\<close>, \<^verbatim>\<open>name\<close> and \<^verbatim>\<open>email\<close>.
\<close>

definition example_title :: FieldDefinitionNode where
  "example_title = \<lparr>field_id = 4, field_name = ''title'',
                    field_type = NonNullType (NamedType ''String''), field_directives = []\<rparr>"

definition example_createdOn :: FieldDefinitionNode where
  "example_createdOn = \<lparr>field_id = 5, field_name = ''createdOn'',
                        field_type = NonNullType (NamedType ''String''), field_directives = []\<rparr>"

definition example_comments :: FieldDefinitionNode where
  "example_comments = \<lparr>field_id = 6, field_name = ''comments'',
                       field_type = ListType (NamedType ''Comment''),
                       field_directives = [\<lparr>directive_name = ''hasMany''\<rparr>]\<rparr>"

definition example_editor :: FieldDefinitionNode where
  "example_editor = \<lparr>field_id = 7, field_name = ''editor'',
                     field_type = NamedType ''Editor'',
                     field_directives = [\<lparr>directive_name = ''hasOne''\<rparr>]\<rparr>"

definition example_name :: FieldDefinitionNode where
  "example_name = \<lparr>field_id = 8, field_name = ''name'',
                   field_type = NonNullType (NamedType ''String''), field_directives = []\<rparr>"

definition example_email :: FieldDefinitionNode where
  "example_email = \<lparr>field_id = 9, field_name = ''email'',
                    field_type = NonNullType (NamedType ''String''), field_directives = []\<rparr>"

definition example_Post :: ObjectTypeDefinitionNode where
  "example_Post = \<lparr>object_name = ''Post'',
                   object_fields = [example_id, example_title, example_createdOn,
                                    example_comments, example_editor],
                   object_directives = [\<lparr>directive_name = ''model''\<rparr>]\<rparr>"

definition example_Comment :: ObjectTypeDefinitionNode where
  "example_Comment = \<lparr>object_name = ''Comment'', object_fields = [example_id],
                      object_directives = [\<lparr>directive_name = ''model''\<rparr>]\<rparr>"

definition example_Editor :: ObjectTypeDefinitionNode where
  "example_Editor = \<lparr>object_name = ''Editor'',
                     object_fields = [example_id, example_name, example_email],
                     object_directives = [\<lparr>directive_name = ''model''\<rparr>]\<rparr>"

definition example_ctx :: TransformerContext where
  "example_ctx =
     \<lparr>getModelNameMapping = (\<lambda>n. n),
      respectPrimaryKeyAttributesOnConnectionField = True,
      getObject = (\<lambda>n. if n = ''Post'' then Some example_Post else None),
      getDataSource = (\<lambda>n. Some n),
      getStackFor = (\<lambda>resourceId stack. stack),
      getConnectionAttributeName = (\<lambda>respect type field relatedTypeField.
         type @ ''_'' @ field @ ''_'' @ (if respect then relatedTypeField else ''id'')),
      getObjectPrimaryKey = (\<lambda>object. example_id),
      getSortKeyFields = (\<lambda>object.
         if object_name object = ''Post'' then [example_title, example_createdOn] else []),
      attributeTypeFromType = (\<lambda>t. ''S''),
      attributeTypeFromScalar = (\<lambda>t. ''S''),
      ResolverResourceID = (\<lambda>type field. type @ field @ ''Resolver''),
      NONE_VALUE = ''___xamznone____'',
      ModelCompositeKeySeparator = ''#'',
      DynamoDBModelTableReadIOPS = ''DynamoDBModelTableReadIOPS'',
      DynamoDBModelTableWriteIOPS = ''DynamoDBModelTableWriteIOPS'',
      ShouldUsePayPerRequestBilling = ''ShouldUsePayPerRequestBilling''\<rparr>"

definition example_state :: TransformerState where
  "example_state =
     \<lparr>st_tables =
        [''Comment'' \<mapsto>
           \<lparr>table_keySchema = [\<lparr>attributeName = ''id'', keyType = ''HASH''\<rparr>],
            table_globalSecondaryIndexes = [],
            cfnTable_globalSecondaryIndexes = None\<rparr>,
         ''Editor'' \<mapsto>
           \<lparr>table_keySchema = [\<lparr>attributeName = ''id'', keyType = ''HASH''\<rparr>,
                               \<lparr>attributeName = ''name#email'', keyType = ''RANGE''\<rparr>],
            table_globalSecondaryIndexes = [],
            cfnTable_globalSecondaryIndexes = None\<rparr>],
      st_resolvers = Map.empty\<rparr>"

definition example_hasMany :: HasManyDirectiveConfiguration where
  "example_hasMany =
     \<lparr>hm_field = example_comments, hm_object = example_Post, hm_relatedType = example_Comment,
      hm_fields = [], hm_indexName = None\<rparr>"

definition example_hasOne :: HasOneDirectiveConfiguration where
  "example_hasOne =
     \<lparr>ho_connectionFields = [''postEditorId'', ''postEditorName'', ''postEditorEmail''],
      ho_field = example_editor, ho_fields = [], ho_object = example_Post,
      ho_relatedType = example_Editor,
      ho_relatedTypeIndex = [example_id, example_name, example_email]\<rparr>"

text \<open>
  The request program registered for \<^verbatim>\<open>Post.editor\<close>, and an invocation on a post whose
  \<^verbatim>\<open>postEditorId\<close> and \<^verbatim>\<open>postEditorName\<close> are set and whose \<^verbatim>\<open>postEditorEmail\<close> is null.
\<close>

definition example_requestProgram :: "Expression option" where
  "example_requestProgram =
     (case makeGetItemConnectionWithKeyResolver example_ctx example_hasOne example_state of
        Inl e \<Rightarrow> None
      | Inr state' \<Rightarrow>
          map_option (\<lambda>resolver. template_content (resolver_requestMappingTemplate resolver))
            (st_resolvers state' (''Post'', ''editor'')))"

definition example_runtime :: runtime where
  "example_runtime =
     \<lparr>rt_deniedField = VNull,
      rt_connectionAttibutes = (\<lambda>key. VNull),
      rt_authFilter = VNull,
      rt_source = (\<lambda>f. if f = ''postEditorId'' then VString ''e1''
                        else if f = ''postEditorName'' then VString ''Ada'' else VNull),
      rt_items = [],
      rt_scannedCount = VInt 1,
      rt_error = VNull\<rparr>"

section \<open>Verified properties\<close>

subsection \<open>The validator\<close>

lemma hasDirective_iff: "hasDirective n ds \<longleftrightarrow> (\<exists>d\<in>set ds. directive_name d = n)"
  by (induction ds) auto

lemma buildFieldMap_Inl:
  "buildFieldMap n f fs m = Inl e \<Longrightarrow> e = DuplicatePrimaryKey n"
  by (induction fs arbitrary: m) (auto split: if_splits)

lemma buildFieldMap_dup:
  "buildFieldMap n f fs m = Inl (DuplicatePrimaryKey n) \<longleftrightarrow>
   (\<exists>g\<in>set fs. g \<noteq> f \<and> hasDirective directiveName (field_directives g))"
  by (induction fs arbitrary: m) auto

lemma sortKeyLoop_append:
  "sortKeyLoop env fm (pre @ rest) c =
   (case sortKeyLoop env fm pre c of Inl e \<Rightarrow> Inl e | Inr c' \<Rightarrow> sortKeyLoop env fm rest c')"
  by (induction pre arbitrary: c) (auto split: option.splits)

lemma sortKeyLoop_object: "sortKeyLoop env fm ns c = Inr c' \<Longrightarrow> cfg_object c' = cfg_object c"
  by (induction ns arbitrary: c) (auto split: option.splits if_splits)

lemma sortKeyLoop_not_dup:
  "sortKeyLoop env fm ns c \<noteq> Inl (DuplicatePrimaryKey n)"
  by (induction ns arbitrary: c)
     (auto split: option.splits simp: DuplicatePrimaryKey_def UnknownSortKeyField_def
        InvalidSortKeyType_def NullablePrimaryKey_def SortKeyOwnerConflict_def quote_def)


text \<open>
  Claim C5. Validation is fail-fast and atomic: when \<^verbatim>\<open>validate\<close> throws on the
  configuration that \<^verbatim>\<open>field\<close> collected, \<^verbatim>\<open>field\<close> throws the same failure and leaves the
  transformer as it was, so the configuration is not in the directive list; whatever the
  generators do, \<^verbatim>\<open>generateResolvers\<close> then does exactly what it did before the visit, and on
  a transformer that recorded nothing it generates nothing.
\<close>

theorem field_validation_failure_not_recorded:
  assumes "validate env (getArguments parent definition directive sortKeyFields) = Inl e"
  shows "field env this parent definition directive sortKeyFields = (Some e, this)
       \<and> directiveList (snd (field env this parent definition directive sortKeyFields))
           = directiveList this
       \<and> generateResolvers generate modelToDatasourceMap
           (snd (field env this parent definition directive sortKeyFields)) s
           = generateResolvers generate modelToDatasourceMap this s
       \<and> generateResolvers generate modelToDatasourceMap
           (snd (field env newPrimaryKeyTransformer parent definition directive sortKeyFields)) s
           = s"
  using assms by (simp add: field_def generateResolvers_def newPrimaryKeyTransformer_def)

theorem field_validation_failure_not_recorded_witness:
  "validate example_env
     (getArguments example_Test example_id example_primaryKey (ArgArray [''owner'']))
     = Inl (SortKeyOwnerConflict ''owner'')
   \<and> field example_env newPrimaryKeyTransformer example_Test example_id example_primaryKey
       (ArgArray [''owner'']) = (Some (SortKeyOwnerConflict ''owner''), newPrimaryKeyTransformer)
   \<and> generateResolvers (\<lambda>generator config n. Suc n) Map.empty
       (snd (field example_env newPrimaryKeyTransformer example_Test example_id
               example_primaryKey (ArgArray [''owner'']))) (0::nat) = 0"
proof -
  have v: "validate example_env
     (getArguments example_Test example_id example_primaryKey (ArgArray [''owner'']))
     = Inl (SortKeyOwnerConflict ''owner'')"
    by (simp add: validate_def getArguments_def example_Test_def example_env_def example_id_def
        example_createdAt_def example_owner_def directiveName_def)
  from field_validation_failure_not_recorded[OF v, of newPrimaryKeyTransformer
      "\<lambda>generator config n. Suc n" Map.empty "0::nat"] v
  show ?thesis by blast
qed

text \<open>
  Claim C6, amended. Let the checks before the sort-key loop pass (no self-reference, a
  \<^verbatim>\<open>@model\<close> directive, no second primary key, a non-null scalar primary-key field), and let
  the sort-key names before \<open>sortKeyFieldName\<close> pass the loop. If \<open>sortKeyFieldName\<close> resolves to
  a field that is a list or not scalar-or-enum, \<^verbatim>\<open>validate\<close> raises the sort-key failure
  \<open>InvalidSortKeyType\<close>. If it resolves to a scalar, non-list field that is nullable,
  \<^verbatim>\<open>validate\<close> raises the failure of a nullable primary key, \<open>NullablePrimaryKey\<close>: the
  message is that of line 299.
\<close>

theorem validate_sort_key_type:
  assumes self: "validateNotSelfReferencing env config = None"
    and model: "find (\<lambda>directive. directive_name directive = ''model'')
             (object_directives (cfg_object config)) = Some modelDirective"
    and fm: "buildFieldMap (object_name (cfg_object config)) (cfg_field config)
             (object_fields (cfg_object config)) Map.empty = Inr fieldMap"
    and pk: "isNonNullType env (field_type (cfg_field config))"
            "isScalarOrEnum env (field_type (cfg_field config)) (enumDefinitions env)"
            "\<not> isListType env (field_type (cfg_field config))"
    and sk: "cfg_sortKeyFields config = pre @ sortKeyFieldName # post"
    and pre: "sortKeyLoop env fieldMap pre (config\<lparr>cfg_modelDirective := Some modelDirective\<rparr>)
              = Inr config'"
    and sf: "fieldMap sortKeyFieldName = Some sortField"
  shows "(\<not> isScalarOrEnum env (field_type sortField) (enumDefinitions env)
            \<or> isListType env (field_type sortField) \<longrightarrow>
          validate env config =
            Inl (InvalidSortKeyType (object_name (cfg_object config)) (field_name sortField)))
       \<and> (isScalarOrEnum env (field_type sortField) (enumDefinitions env)
            \<and> \<not> isListType env (field_type sortField)
            \<and> \<not> isNonNullType env (field_type sortField) \<longrightarrow>
          validate env config = Inl (NullablePrimaryKey (object_name (cfg_object config))))"
proof -
  have obj: "cfg_object config' = cfg_object config"
    using sortKeyLoop_object[OF pre] by simp
  have v: "validate env config = sortKeyLoop env fieldMap (sortKeyFieldName # post) config'"
    using self model fm pk sk pre by (simp add: validate_def Let_def sortKeyLoop_append)
  show ?thesis unfolding v using sf obj by simp
qed

theorem validate_sort_key_type_witness:
  "validate example_env
     (getArguments example_Test example_id example_primaryKey (ArgString ''createdAt''))
   = Inl (NullablePrimaryKey ''Test'')"
proof -
  let ?c = "getArguments example_Test example_id example_primaryKey (ArgString ''createdAt'')"
  let ?fm = "[''id'' \<mapsto> example_id, ''createdAt'' \<mapsto> example_createdAt,
              ''owner'' \<mapsto> example_owner]"
  let ?m = "\<lparr>directive_name = ''model''\<rparr>"
  have a: "validateNotSelfReferencing example_env ?c = None"
    by (simp add: example_env_def getArguments_def example_id_def)
  have b: "find (\<lambda>directive. directive_name directive = ''model'')
             (object_directives (cfg_object ?c)) = Some ?m"
    by (simp add: getArguments_def example_Test_def)
  have c: "buildFieldMap (object_name (cfg_object ?c)) (cfg_field ?c)
             (object_fields (cfg_object ?c)) Map.empty = Inr ?fm"
    by (simp add: getArguments_def example_Test_def example_id_def example_createdAt_def
        example_owner_def directiveName_def)
  have d: "isNonNullType example_env (field_type (cfg_field ?c))"
          "isScalarOrEnum example_env (field_type (cfg_field ?c)) (enumDefinitions example_env)"
          "\<not> isListType example_env (field_type (cfg_field ?c))"
    by (simp_all add: example_env_def getArguments_def example_id_def)
  have e: "cfg_sortKeyFields ?c = [] @ ''createdAt'' # []"
    by (simp add: getArguments_def)
  have f: "sortKeyLoop example_env ?fm [] (?c\<lparr>cfg_modelDirective := Some ?m\<rparr>)
           = Inr (?c\<lparr>cfg_modelDirective := Some ?m\<rparr>)"
    by simp
  have g: "?fm ''createdAt'' = Some example_createdAt" by simp
  have h: "isScalarOrEnum example_env (field_type example_createdAt) (enumDefinitions example_env)
            \<and> \<not> isListType example_env (field_type example_createdAt)
            \<and> \<not> isNonNullType example_env (field_type example_createdAt)"
    by (simp add: example_env_def example_createdAt_def)
  have i: "object_name (cfg_object ?c) = ''Test''"
    by (simp add: getArguments_def example_Test_def)
  from validate_sort_key_type[OF a b c d e f g] h i show ?thesis by metis
qed

text \<open>
  Claim C6 as stated fails on a nullable sort-key field: for
  \<^verbatim>\<open>type Test @model { id: ID! @primaryKey(sortKeyFields: "createdAt") createdAt: String }\<close>
  the failure raised is not \<open>InvalidSortKeyType\<close>.
\<close>

theorem validate_nullable_sort_key_counterexample:
  "validate example_env
     (getArguments example_Test example_id example_primaryKey (ArgString ''createdAt''))
   \<noteq> Inl (InvalidSortKeyType ''Test'' ''createdAt'')"
  by (simp add: validate_def getArguments_def example_Test_def example_env_def example_id_def
        example_createdAt_def example_owner_def directiveName_def NullablePrimaryKey_def
        InvalidSortKeyType_def quote_def)

text \<open>
  Claim C7. On a type annotated with \<^verbatim>\<open>@model\<close> whose configuration is not self-referencing
  (the two checks that run first), \<^verbatim>\<open>validate\<close> raises \<open>DuplicatePrimaryKey\<close> exactly when a
  field of the type other than the annotated one carries a primary-key directive: it raises
  it if there is such a field, and with the annotated field as the only one the check passes
  and \<^verbatim>\<open>validate\<close> does not raise it.
\<close>

theorem validate_duplicate_primary_key:
  assumes "validateNotSelfReferencing env config = None"
      and "find (\<lambda>directive. directive_name directive = ''model'')
             (object_directives (cfg_object config)) = Some modelDirective"
  shows "validate env config = Inl (DuplicatePrimaryKey (object_name (cfg_object config))) \<longleftrightarrow>
         (\<exists>other\<in>set (object_fields (cfg_object config)).
            other \<noteq> cfg_field config \<and>
            (\<exists>d\<in>set (field_directives other). directive_name d = directiveName))"
proof (cases "buildFieldMap (object_name (cfg_object config)) (cfg_field config)
             (object_fields (cfg_object config)) Map.empty")
  case (Inl e)
  then have e: "e = DuplicatePrimaryKey (object_name (cfg_object config))"
    by (rule buildFieldMap_Inl)
  from Inl e have "validate env config = Inl (DuplicatePrimaryKey (object_name (cfg_object config)))"
    using assms by (simp add: validate_def)
  moreover from Inl e have "\<exists>g\<in>set (object_fields (cfg_object config)).
      g \<noteq> cfg_field config \<and> hasDirective directiveName (field_directives g)"
    using buildFieldMap_dup by blast
  ultimately show ?thesis by (simp add: hasDirective_iff)
next
  case (Inr fieldMap)
  then have no: "\<not> (\<exists>g\<in>set (object_fields (cfg_object config)).
      g \<noteq> cfg_field config \<and> hasDirective directiveName (field_directives g))"
    using buildFieldMap_dup[of "object_name (cfg_object config)" "cfg_field config"
        "object_fields (cfg_object config)" Map.empty] by simp
  have "validate env config \<noteq> Inl (DuplicatePrimaryKey (object_name (cfg_object config)))"
    using assms Inr sortKeyLoop_not_dup
    by (auto simp: validate_def Let_def DuplicatePrimaryKey_def NullablePrimaryKey_def
        InvalidPrimaryKeyType_def quote_def)
  with no show ?thesis by (simp add: hasDirective_iff)
qed

theorem validate_duplicate_primary_key_witness:
  "validate example_env (getArguments example_Item example_id example_primaryKey ArgUndefined)
     = Inl (DuplicatePrimaryKey ''Item'')
   \<and> validate example_env (getArguments example_Test example_id example_primaryKey ArgUndefined)
     \<noteq> Inl (DuplicatePrimaryKey ''Test'')"
proof -
  let ?c = "getArguments example_Item example_id example_primaryKey ArgUndefined"
  let ?d = "getArguments example_Test example_id example_primaryKey ArgUndefined"
  let ?m = "\<lparr>directive_name = ''model''\<rparr>"
  have a: "validateNotSelfReferencing example_env ?c = None"
          "validateNotSelfReferencing example_env ?d = None"
    by (simp_all add: example_env_def getArguments_def)
  have b: "find (\<lambda>directive. directive_name directive = ''model'')
             (object_directives (cfg_object ?c)) = Some ?m"
          "find (\<lambda>directive. directive_name directive = ''model'')
             (object_directives (cfg_object ?d)) = Some ?m"
    by (simp_all add: getArguments_def example_Item_def example_Test_def)
  have c: "\<exists>other\<in>set (object_fields (cfg_object ?c)). other \<noteq> cfg_field ?c \<and>
            (\<exists>d\<in>set (field_directives other). directive_name d = directiveName)"
    by (simp add: getArguments_def example_Item_def example_id_def example_sku_def
        directiveName_def)
  have d: "\<not> (\<exists>other\<in>set (object_fields (cfg_object ?d)). other \<noteq> cfg_field ?d \<and>
            (\<exists>d\<in>set (field_directives other). directive_name d = directiveName))"
    by (simp add: getArguments_def example_Test_def example_id_def example_createdAt_def
        example_owner_def directiveName_def)
  have n: "object_name (cfg_object ?c) = ''Item''" "object_name (cfg_object ?d) = ''Test''"
    by (simp_all add: getArguments_def example_Item_def example_Test_def)
  from validate_duplicate_primary_key[OF a(1) b(1)] validate_duplicate_primary_key[OF a(2) b(2)]
    c d n
  show ?thesis by metis
qed

subsection \<open>The reconciler\<close>

lemma find_append_new:
  "\<not> list_ex P xs \<Longrightarrow> P x \<Longrightarrow> find P (xs @ [x]) = Some x"
  by (induction xs) auto

lemma filter_none: "\<not> list_ex P xs \<Longrightarrow> filter P xs = []"
  by (induction xs) auto

lemma list_ex_filter_length: "list_ex P xs \<longleftrightarrow> 0 < length (filter P xs)"
  by (induction xs) auto

lemma truthy_connectionIndexName: "truthy_string (Some (connectionIndexName ctx config))"
  by (simp add: truthy_string_def connectionIndexName_def)

lemma declarativeIndex_name: "gsi_indexName (declarativeIndex props) = props_indexName props"
  by (simp add: declarativeIndex_def)

lemma connectionIndexProps_name: "props_indexName (connectionIndexProps ctx config n) = n"
  by (simp add: connectionIndexProps_def Let_def)

text \<open>What a call does on each of its three paths.\<close>

lemma updateTableForConnection_early:
  "truthy_string (hm_indexName config) \<or> hm_fields config \<noteq> [] \<Longrightarrow>
   updateTableForConnection ctx config state = Inr (config, state)"
  by (auto simp: updateTableForConnection_def)

lemma updateTableForConnection_exists:
  assumes "\<not> truthy_string (hm_indexName config)" "hm_fields config = []"
    and "st_tables state (object_name (hm_relatedType config)) = Some table"
    and "list_ex (\<lambda>gsi. gsi_indexName gsi = connectionIndexName ctx config)
             (table_globalSecondaryIndexes table)"
  shows "updateTableForConnection ctx config state =
           Inr (config\<lparr>hm_indexName := Some (connectionIndexName ctx config)\<rparr>, state)"
  using assms
  by (simp add: updateTableForConnection_def getTable_def Let_def)

lemma updateTableForConnection_add:
  assumes "\<not> truthy_string (hm_indexName config)" "hm_fields config = []"
    and "st_tables state (object_name (hm_relatedType config)) = Some table"
    and "\<not> list_ex (\<lambda>gsi. gsi_indexName gsi = connectionIndexName ctx config)
             (table_globalSecondaryIndexes table)"
  shows "updateTableForConnection ctx config state =
           Inr (config\<lparr>hm_indexName := Some (connectionIndexName ctx config)\<rparr>,
                state\<lparr>st_tables := (st_tables state)(object_name (hm_relatedType config) \<mapsto>
                  table\<lparr>table_globalSecondaryIndexes := table_globalSecondaryIndexes table @
                          [declarativeIndex (connectionIndexProps ctx config
                             (connectionIndexName ctx config))],
                        cfnTable_globalSecondaryIndexes :=
                          Some (appendIndex (cfnTable_globalSecondaryIndexes table)
                            (rawIndex ctx (connectionIndexName ctx config)
                               (gsi_keySchema (declarativeIndex (connectionIndexProps ctx config
                                  (connectionIndexName ctx config))))))\<rparr>)\<rparr>)"
  using assms
  by (simp add: updateTableForConnection_def getTable_def Let_def
      addGlobalSecondaryIndex_def find_append_new declarativeIndex_name connectionIndexProps_name)

text \<open>
  Claim C8. When the relation names an index (a non-empty \<^verbatim>\<open>indexName\<close>) or lists key
  fields, \<^verbatim>\<open>updateTableForConnection\<close> returns at once: the configuration and the whole
  state, so every table with its declarative and its raw index list, are what they were.
\<close>

theorem updateTableForConnection_explicit_index_noop:
  assumes "truthy_string (hm_indexName config) \<or> hm_fields config \<noteq> []"
  shows "updateTableForConnection ctx config state = Inr (config, state)"
  using assms by (auto simp: updateTableForConnection_def)

text \<open>
  Claim C3. For a relation with no index name and no key fields, on a table that holds the
  derived name \<^verbatim>\<open>gsi-<mappedObjectName>.<fieldName>\<close> at most once, the call succeeds and
  leaves exactly one index of that name; a second call, with the configuration as the first
  call left it or with the original one, returns without failing and changes nothing.
\<close>

theorem updateTableForConnection_idempotent:
  assumes nt: "\<not> truthy_string (hm_indexName config)" and nf: "hm_fields config = []"
    and tbl: "st_tables state (object_name (hm_relatedType config)) = Some table"
    and cnt: "indexCount (connectionIndexName ctx config) table \<le> 1"
  shows "\<exists>config1 state1 table1.
           updateTableForConnection ctx config state = Inr (config1, state1)
         \<and> hm_indexName config1 = Some (connectionIndexName ctx config)
         \<and> st_tables state1 (object_name (hm_relatedType config)) = Some table1
         \<and> indexCount (connectionIndexName ctx config) table1 = 1
         \<and> updateTableForConnection ctx config1 state1 = Inr (config1, state1)
         \<and> updateTableForConnection ctx config state1 = Inr (config1, state1)"
proof (cases "list_ex (\<lambda>gsi. gsi_indexName gsi = connectionIndexName ctx config)
                (table_globalSecondaryIndexes table)")
  case True
  let ?c1 = "config\<lparr>hm_indexName := Some (connectionIndexName ctx config)\<rparr>"
  have first: "updateTableForConnection ctx config state = Inr (?c1, state)"
    by (rule updateTableForConnection_exists[OF nt nf tbl True])
  have one: "indexCount (connectionIndexName ctx config) table = 1"
  proof -
    have "0 < length (filter (\<lambda>gsi. gsi_indexName gsi = connectionIndexName ctx config)
                        (table_globalSecondaryIndexes table))"
      using True by (simp only: list_ex_filter_length)
    with cnt show ?thesis unfolding indexCount_def by linarith
  qed
  have again: "updateTableForConnection ctx ?c1 state = Inr (?c1, state)"
    by (rule updateTableForConnection_early) (simp add: truthy_connectionIndexName)
  from first one again tbl show ?thesis by simp
next
  case False
  let ?n = "connectionIndexName ctx config"
  let ?c1 = "config\<lparr>hm_indexName := Some ?n\<rparr>"
  let ?l2 = "declarativeIndex (connectionIndexProps ctx config ?n)"
  let ?t1 = "table\<lparr>table_globalSecondaryIndexes := table_globalSecondaryIndexes table @ [?l2],
                   cfnTable_globalSecondaryIndexes :=
                     Some (appendIndex (cfnTable_globalSecondaryIndexes table)
                             (rawIndex ctx ?n (gsi_keySchema ?l2)))\<rparr>"
  let ?s1 = "state\<lparr>st_tables := (st_tables state)(object_name (hm_relatedType config) \<mapsto> ?t1)\<rparr>"
  have first: "updateTableForConnection ctx config state = Inr (?c1, ?s1)"
    by (rule updateTableForConnection_add[OF nt nf tbl False])
  have tbl1: "st_tables ?s1 (object_name (hm_relatedType config)) = Some ?t1" by simp
  have one: "indexCount ?n ?t1 = 1"
    using False
    by (simp add: indexCount_def filter_none declarativeIndex_name connectionIndexProps_name)
  have again: "updateTableForConnection ctx ?c1 ?s1 = Inr (?c1, ?s1)"
    by (rule updateTableForConnection_early) (simp add: truthy_connectionIndexName)
  have ex1: "list_ex (\<lambda>gsi. gsi_indexName gsi = ?n) (table_globalSecondaryIndexes ?t1)"
    by (simp add: declarativeIndex_name connectionIndexProps_name)
  have fresh: "updateTableForConnection ctx config ?s1 = Inr (?c1, ?s1)"
    by (rule updateTableForConnection_exists[OF nt nf tbl1 ex1])
  show ?thesis
    apply (rule exI[of _ ?c1], rule exI[of _ ?s1], rule exI[of _ ?t1])
    using first tbl1 one again fresh by simp
qed

lemma consistent_extend:
  assumes "consistent table" "gsi_indexName l1 = gsi_indexName l2" "gsi_keySchema l1 = gsi_keySchema l2"
  shows "consistent (table\<lparr>table_globalSecondaryIndexes := table_globalSecondaryIndexes table @ [l2],
                        cfnTable_globalSecondaryIndexes :=
                          Some (appendIndex (cfnTable_globalSecondaryIndexes table) l1)\<rparr>)"
  using assms
  by (cases "cfnTable_globalSecondaryIndexes table")
     (auto simp: consistent_def appendIndex_def list_all_iff list_ex_iff)

text \<open>
  Claim C9. Every call that returns keeps the invariant of the two index lists: if every
  declarative entry of the table had a raw entry of the same name and key schema before the
  call, so it has after it; and a call that adds an index leaves the new declarative entry,
  under the derived name, with a raw entry of the same name and key schema.
\<close>

theorem updateTableForConnection_consistent:
  assumes call: "updateTableForConnection ctx config state = Inr (config1, state1)"
    and tbl: "st_tables state (object_name (hm_relatedType config)) = Some table"
  shows "\<exists>table1. st_tables state1 (object_name (hm_relatedType config)) = Some table1
         \<and> (consistent table \<longrightarrow> consistent table1)
         \<and> (table_globalSecondaryIndexes table1 \<noteq> table_globalSecondaryIndexes table \<longrightarrow>
              list_ex (\<lambda>l2. gsi_indexName l2 = connectionIndexName ctx config \<and>
                 list_ex (\<lambda>l1. gsi_indexName l1 = gsi_indexName l2 \<and>
                                gsi_keySchema l1 = gsi_keySchema l2)
                   (case cfnTable_globalSecondaryIndexes table1 of None \<Rightarrow> [] | Some a \<Rightarrow> a))
                (table_globalSecondaryIndexes table1))"
proof (cases "truthy_string (hm_indexName config) \<or> hm_fields config \<noteq> []")
  case True
  from updateTableForConnection_early[OF True, of ctx state] call have "state1 = state" by simp
  with tbl show ?thesis by simp
next
  case early: False
  then have nt: "\<not> truthy_string (hm_indexName config)" and nf: "hm_fields config = []" by simp_all
  show ?thesis
  proof (cases "list_ex (\<lambda>gsi. gsi_indexName gsi = connectionIndexName ctx config)
                  (table_globalSecondaryIndexes table)")
    case True
    from updateTableForConnection_exists[OF nt nf tbl True] call have "state1 = state" by simp
    with tbl show ?thesis by simp
  next
    case False
    let ?n = "connectionIndexName ctx config"
    let ?l2 = "declarativeIndex (connectionIndexProps ctx config ?n)"
    let ?l1 = "rawIndex ctx ?n (gsi_keySchema ?l2)"
    let ?t1 = "table\<lparr>table_globalSecondaryIndexes := table_globalSecondaryIndexes table @ [?l2],
                     cfnTable_globalSecondaryIndexes :=
                       Some (appendIndex (cfnTable_globalSecondaryIndexes table) ?l1)\<rparr>"
    have names: "gsi_indexName ?l1 = gsi_indexName ?l2" "gsi_keySchema ?l1 = gsi_keySchema ?l2"
                "gsi_indexName ?l2 = ?n"
      by (simp_all add: rawIndex_def declarativeIndex_name connectionIndexProps_name)
    from updateTableForConnection_add[OF nt nf tbl False] call
    have s1: "st_tables state1 (object_name (hm_relatedType config)) = Some ?t1" by auto
    have keep: "consistent table \<longrightarrow> consistent ?t1"
      using consistent_extend[OF _ names(1,2)] by blast
    have new: "list_ex (\<lambda>l2. gsi_indexName l2 = ?n \<and>
                 list_ex (\<lambda>l1. gsi_indexName l1 = gsi_indexName l2 \<and>
                                gsi_keySchema l1 = gsi_keySchema l2)
                   (case cfnTable_globalSecondaryIndexes ?t1 of None \<Rightarrow> [] | Some a \<Rightarrow> a))
                (table_globalSecondaryIndexes ?t1)"
      using names by (cases "cfnTable_globalSecondaryIndexes table") (simp_all add: appendIndex_def)
    from s1 keep new show ?thesis by blast
  qed
qed


lemma example_hasMany_facts:
  "\<not> truthy_string (hm_indexName example_hasMany)"
  "hm_fields example_hasMany = []"
  "object_name (hm_relatedType example_hasMany) = ''Comment''"
  by (simp_all add: example_hasMany_def truthy_string_def example_Comment_def)

lemma example_Comment_table:
  "st_tables example_state ''Comment'' =
     Some \<lparr>table_keySchema = [\<lparr>attributeName = ''id'', keyType = ''HASH''\<rparr>],
           table_globalSecondaryIndexes = [],
           cfnTable_globalSecondaryIndexes = None\<rparr>"
  by (simp add: example_state_def)

theorem updateTableForConnection_explicit_index_noop_witness:
  "updateTableForConnection example_ctx (example_hasMany\<lparr>hm_indexName := Some ''byPost''\<rparr>)
     example_state = Inr (example_hasMany\<lparr>hm_indexName := Some ''byPost''\<rparr>, example_state)"
proof -
  have "truthy_string (hm_indexName (example_hasMany\<lparr>hm_indexName := Some ''byPost''\<rparr>))
        \<or> hm_fields (example_hasMany\<lparr>hm_indexName := Some ''byPost''\<rparr>) \<noteq> []"
    by (simp add: truthy_string_def)
  then show ?thesis by (rule updateTableForConnection_explicit_index_noop)
qed

theorem updateTableForConnection_idempotent_witness:
  "\<exists>config1 state1 table1.
      updateTableForConnection example_ctx example_hasMany example_state = Inr (config1, state1)
    \<and> hm_indexName config1 = Some ''gsi-Post.comments''
    \<and> st_tables state1 ''Comment'' = Some table1
    \<and> indexCount ''gsi-Post.comments'' table1 = 1
    \<and> updateTableForConnection example_ctx config1 state1 = Inr (config1, state1)
    \<and> updateTableForConnection example_ctx example_hasMany state1 = Inr (config1, state1)"
proof -
  have n: "connectionIndexName example_ctx example_hasMany = ''gsi-Post.comments''"
    by (simp add: connectionIndexName_def example_ctx_def example_hasMany_def example_Post_def
        example_comments_def)
  have t: "st_tables example_state (object_name (hm_relatedType example_hasMany)) =
     Some \<lparr>table_keySchema = [\<lparr>attributeName = ''id'', keyType = ''HASH''\<rparr>],
           table_globalSecondaryIndexes = [],
           cfnTable_globalSecondaryIndexes = None\<rparr>"
    by (simp add: example_hasMany_facts example_Comment_table)
  have c: "indexCount (connectionIndexName example_ctx example_hasMany)
             \<lparr>table_keySchema = [\<lparr>attributeName = ''id'', keyType = ''HASH''\<rparr>],
              table_globalSecondaryIndexes = [],
              cfnTable_globalSecondaryIndexes = None\<rparr> \<le> 1"
    by (simp add: indexCount_def)
  from updateTableForConnection_idempotent[OF example_hasMany_facts(1,2) t c]
  show ?thesis by (simp only: n example_hasMany_facts(3))
qed

theorem updateTableForConnection_consistent_witness:
  "\<exists>config1 state1 table1.
      updateTableForConnection example_ctx example_hasMany example_state = Inr (config1, state1)
    \<and> st_tables state1 ''Comment'' = Some table1
    \<and> table_globalSecondaryIndexes table1 \<noteq> []
    \<and> consistent table1"
proof -
  let ?t = "\<lparr>table_keySchema = [\<lparr>attributeName = ''id'', keyType = ''HASH''\<rparr>],
             table_globalSecondaryIndexes = [],
             cfnTable_globalSecondaryIndexes = None\<rparr>"
  have t: "st_tables example_state (object_name (hm_relatedType example_hasMany)) = Some ?t"
    by (simp add: example_hasMany_facts example_Comment_table)
  have fresh: "\<not> list_ex (\<lambda>gsi. gsi_indexName gsi = connectionIndexName example_ctx example_hasMany)
                    (table_globalSecondaryIndexes ?t)"
    by simp
  obtain config1 state1 where
    call: "updateTableForConnection example_ctx example_hasMany example_state = Inr (config1, state1)"
    and s1: "table_globalSecondaryIndexes (the (st_tables state1 ''Comment'')) \<noteq> []"
    using updateTableForConnection_add[OF example_hasMany_facts(1,2) t fresh]
    by (simp add: example_hasMany_facts(3))
  have c: "consistent ?t" by (simp add: consistent_def)
  from updateTableForConnection_consistent[OF call t] c
  obtain table1 where "st_tables state1 ''Comment'' = Some table1" "consistent table1"
    by (auto simp: example_hasMany_facts(3))
  with call s1 show ?thesis by auto
qed

subsection \<open>The resolver of a singular connection\<close>

text \<open>
  Claim C10. With an empty \<^verbatim>\<open>relatedTypeIndex\<close> the call throws its error, before any write,
  so no resolver is registered; a call that returns a state had a non-empty
  \<^verbatim>\<open>relatedTypeIndex\<close>.
\<close>

theorem makeGetItemConnectionWithKeyResolver_requires_index:
  "(length (ho_relatedTypeIndex config) = 0 \<longrightarrow>
      makeGetItemConnectionWithKeyResolver ctx config state =
        Inl (Error ''Expected relatedType index fields to be set for connection.''))
   \<and> (\<forall>state'. makeGetItemConnectionWithKeyResolver ctx config state = Inr state' \<longrightarrow>
        ho_relatedTypeIndex config \<noteq> [])"
  by (auto simp: makeGetItemConnectionWithKeyResolver_def)

theorem makeGetItemConnectionWithKeyResolver_requires_index_witness:
  "makeGetItemConnectionWithKeyResolver example_ctx
     (example_hasOne\<lparr>ho_relatedTypeIndex := []\<rparr>) example_state =
     Inl (Error ''Expected relatedType index fields to be set for connection.'')
   \<and> ho_relatedTypeIndex example_hasOne \<noteq> []
   \<and> (\<exists>state'. makeGetItemConnectionWithKeyResolver example_ctx example_hasOne example_state
         = Inr state')"
proof -
  have ok: "\<exists>state'. makeGetItemConnectionWithKeyResolver example_ctx example_hasOne example_state
         = Inr state'"
    by (simp add: makeGetItemConnectionWithKeyResolver_def example_hasOne_def example_state_def
        getTable_def example_Editor_def keySchemaAttributeName_def at_index_def
        buildKeyValueExpression_def example_ctx_def example_Post_def sortKeyCondition_def
        Let_def localFieldsOf_def)
  have e: "length (ho_relatedTypeIndex (example_hasOne\<lparr>ho_relatedTypeIndex := []\<rparr>)) = 0"
    by simp
  from makeGetItemConnectionWithKeyResolver_requires_index[of
      "example_hasOne\<lparr>ho_relatedTypeIndex := []\<rparr>" example_ctx example_state] e
    makeGetItemConnectionWithKeyResolver_requires_index[of example_hasOne example_ctx example_state]
    ok
  show ?thesis by blast
qed

lemma join_map_length2:
  "join (map f (x # y # ys)) sep = f x @ sep @ join (map f (y # ys)) sep"
  by simp

text \<open>
  Claim C4. For a list of two or more sort-key field names, the sort-key attribute name of
  the reconciler and the sort-key value expression of the synthesizer condense the same list
  with the same separator: the one joins the connection attribute name of each field, the
  other the placeholder \<^verbatim>\<open>${ctx.source.<field>}\<close> of each field.
\<close>

theorem key_condensation_agreement:
  assumes two: "2 \<le> length names"
    and recon: "map field_name (getSortKeyFields ctx object) = names"
    and synth: "drop 1 localFields = names" "2 < length (ho_relatedTypeIndex config)"
    and ks: "keySchemaAttributeName keySchema 1 = Inr sortKeyAttribute"
  shows "getConnectedSortKeyAttributeDefinitionsForImplicitHasManyObject ctx object hasManyField =
           Some \<lparr>sortKeyName =
                    join (map (\<lambda>name. getConnectionAttributeName ctx
                                 (respectPrimaryKeyAttributesOnConnectionField ctx)
                                 (getModelNameMapping ctx (object_name object))
                                 (field_name hasManyField) name) names)
                         (ModelCompositeKeySeparator ctx),
                 sortKeyType = ''S''\<rparr>
       \<and> sortKeyCondition ctx config localFields keySchema =
           Inr ([''#sortKeyName = :sortKeyName''],
                [(''#sortKeyName'', Str sortKeyAttribute)],
                [('':sortKeyName'',
                  Ref (''util.parseJson($util.dynamodb.toDynamoDBJson($util.defaultIfNullOrBlank(\"'' @
                       join (map (\<lambda>name. ''${ctx.source.'' @ name @ ''}'') names)
                            (ModelCompositeKeySeparator ctx) @
                       ''\", \"'' @ NONE_VALUE ctx @ ''\")))''))])"
proof -
  have len: "2 \<le> length (getSortKeyFields ctx object)"
    using two recon by (metis length_map)
  have m: "map (\<lambda>sortKeyField. getConnectionAttributeName ctx
                  (respectPrimaryKeyAttributesOnConnectionField ctx)
                  (getModelNameMapping ctx (object_name object))
                  (field_name hasManyField) (field_name sortKeyField))
               (getSortKeyFields ctx object) =
           map (\<lambda>name. getConnectionAttributeName ctx
                  (respectPrimaryKeyAttributesOnConnectionField ctx)
                  (getModelNameMapping ctx (object_name object))
                  (field_name hasManyField) name) names"
    unfolding recon[symmetric] by (simp add: comp_def)
  have a: "getConnectedSortKeyAttributeDefinitionsForImplicitHasManyObject ctx object hasManyField =
           Some \<lparr>sortKeyName =
                    join (map (\<lambda>name. getConnectionAttributeName ctx
                                 (respectPrimaryKeyAttributesOnConnectionField ctx)
                                 (getModelNameMapping ctx (object_name object))
                                 (field_name hasManyField) name) names)
                         (ModelCompositeKeySeparator ctx),
                 sortKeyType = ''S''\<rparr>"
  proof -
    from len have "getSortKeyFields ctx object \<noteq> []"
      "length (getSortKeyFields ctx object) \<noteq> Suc 0" "Suc 0 < length (getSortKeyFields ctx object)"
      by auto
    then show ?thesis
      by (simp add: getConnectedSortKeyAttributeDefinitionsForImplicitHasManyObject_def Let_def
          condenseRangeKey_def m)
  qed
  have b: "sortKeyCondition ctx config localFields keySchema =
           Inr ([''#sortKeyName = :sortKeyName''],
                [(''#sortKeyName'', Str sortKeyAttribute)],
                [('':sortKeyName'',
                  Ref (''util.parseJson($util.dynamodb.toDynamoDBJson($util.defaultIfNullOrBlank(\"'' @
                       join (map (\<lambda>name. ''${ctx.source.'' @ name @ ''}'') names)
                            (ModelCompositeKeySeparator ctx) @
                       ''\", \"'' @ NONE_VALUE ctx @ ''\")))''))])"
    using synth ks
    by (simp add: sortKeyCondition_def compositeSortKeyExpression_def condensedSortKeyValue_def
        condenseRangeKey_def)
  from a b show ?thesis by simp
qed

theorem key_condensation_agreement_witness:
  "getConnectedSortKeyAttributeDefinitionsForImplicitHasManyObject example_ctx example_Post
     example_comments =
     Some \<lparr>sortKeyName = ''Post_comments_title#Post_comments_createdOn'', sortKeyType = ''S''\<rparr>
   \<and> sortKeyCondition example_ctx example_hasOne
       [''postEditorId'', ''postEditorName'', ''postEditorEmail'']
       [\<lparr>attributeName = ''id'', keyType = ''HASH''\<rparr>,
        \<lparr>attributeName = ''name#email'', keyType = ''RANGE''\<rparr>] =
     Inr ([''#sortKeyName = :sortKeyName''],
          [(''#sortKeyName'', Str ''name#email'')],
          [('':sortKeyName'',
            Ref ''util.parseJson($util.dynamodb.toDynamoDBJson($util.defaultIfNullOrBlank(\"${ctx.source.postEditorName}#${ctx.source.postEditorEmail}\", \"___xamznone____\")))'')])"
proof -
  have a: "getConnectedSortKeyAttributeDefinitionsForImplicitHasManyObject example_ctx example_Post
     example_comments =
     Some \<lparr>sortKeyName = ''Post_comments_title#Post_comments_createdOn'', sortKeyType = ''S''\<rparr>"
  proof -
    have h1: "2 \<le> length [''title'', ''createdOn'']" by simp
    have h2: "map field_name (getSortKeyFields example_ctx example_Post) = [''title'', ''createdOn'']"
      by (simp add: example_ctx_def example_Post_def example_title_def example_createdOn_def)
    have h3: "drop 1 [''id'', ''title'', ''createdOn''] = [''title'', ''createdOn'']" by simp
    have h4: "2 < length (ho_relatedTypeIndex example_hasOne)" by (simp add: example_hasOne_def)
    have h5: "keySchemaAttributeName [\<lparr>attributeName = ''id'', keyType = ''HASH''\<rparr>,
        \<lparr>attributeName = ''name#email'', keyType = ''RANGE''\<rparr>] 1 = Inr ''name#email''"
      by (simp add: keySchemaAttributeName_def at_index_def)
    from key_condensation_agreement[OF h1 h2 h3 h4 h5, of example_comments]
    show ?thesis
      by (simp add: example_ctx_def example_Post_def example_comments_def)
  qed
  have b: "sortKeyCondition example_ctx example_hasOne
       [''postEditorId'', ''postEditorName'', ''postEditorEmail'']
       [\<lparr>attributeName = ''id'', keyType = ''HASH''\<rparr>,
        \<lparr>attributeName = ''name#email'', keyType = ''RANGE''\<rparr>] =
     Inr ([''#sortKeyName = :sortKeyName''],
          [(''#sortKeyName'', Str ''name#email'')],
          [('':sortKeyName'',
            Ref ''util.parseJson($util.dynamodb.toDynamoDBJson($util.defaultIfNullOrBlank(\"${ctx.source.postEditorName}#${ctx.source.postEditorEmail}\", \"___xamznone____\")))'')])"
    by (simp add: sortKeyCondition_def example_hasOne_def keySchemaAttributeName_def at_index_def
        compositeSortKeyExpression_def condensedSortKeyValue_def condenseRangeKey_def
        example_ctx_def)
  from a b show ?thesis by simp
qed

subsection \<open>Running the generated programs\<close>

lemma stripPrefix_append: "stripPrefix p (p @ s) = Some s"
  by (induction p) auto

lemma stripPrefix_SomeD: "stripPrefix p s = Some r \<Longrightarrow> s = p @ r"
  by (induction p s rule: stripPrefix.induct) (auto split: if_splits)

lemma stripSuffix_append: "stripSuffix p (s @ p) = Some s"
  by (simp add: stripSuffix_def stripPrefix_append)

lemma between_append: "between p q (p @ x @ q) = Some x"
  by (simp add: between_def stripPrefix_append stripSuffix_append)

lemma resolveRef_opaque:
  assumes "stripPrefix ''util.parseJson('' p = Some s" "vars p = None"
  shows "resolveRef rt vars p = Inr (VOpaque p)"
proof -
  have p: "p = ''util.parseJson('' @ s" using assms(1) by (rule stripPrefix_SomeD)
  show ?thesis using assms(2) unfolding p by (simp add: resolveRef_def between_def)
qed

lemma evalProps_opaque:
  assumes "\<forall>(k, e) \<in> set props. \<exists>p s. e = Ref p \<and> stripPrefix ''util.parseJson('' p = Some s"
      and "\<forall>p s. stripPrefix ''util.parseJson('' p = Some s \<longrightarrow> vars p = None"
  shows "\<exists>entries. evalProps rt props vars = Inr (entries, vars)"
  using assms
proof (induction props)
  case Nil
  then show ?case by simp
next
  case (Cons a props)
  obtain k e where a: "a = (k, e)" by (cases a)
  from Cons.prems a obtain p s where e: "e = Ref p" "stripPrefix ''util.parseJson('' p = Some s"
    by auto
  with Cons.prems(2) have "vars p = None" by blast
  with e have r: "resolveRef rt vars p = Inr (VOpaque p)" by (simp add: resolveRef_opaque)
  from Cons.IH Cons.prems obtain entries where "evalProps rt props vars = Inr (entries, vars)"
    by auto
  with a e r show ?case by simp
qed

lemma evalProps_str:
  assumes "\<forall>(k, e) \<in> set props. \<exists>s. e = Str s"
  shows "\<exists>entries. evalProps rt props vars = Inr (entries, vars)"
  using assms
proof (induction props)
  case Nil
  then show ?case by simp
next
  case (Cons a props)
  obtain k e where a: "a = (k, e)" by (cases a)
  from Cons.prems a obtain s where e: "e = Str s" by auto
  from Cons.IH Cons.prems obtain entries where "evalProps rt props vars = Inr (entries, vars)"
    by auto
  with a e show ?case by simp
qed

lemma evalRaw_isNull:
  "evalRaw rt (''$util.isNull($ctx.source.'' @ f @ '')'') = Inr (VBool (rt_source rt f = VNull))"
proof -
  have "between ''$util.isNull($ctx.source.'' '')'' (''$util.isNull($ctx.source.'' @ f @ '')'')
        = Some f" by (rule between_append)
  then show ?thesis by (simp add: evalRaw_def)
qed

lemma evalOr_isNull:
  "evalOr rt (map (\<lambda>f. Raw (''$util.isNull($ctx.source.'' @ f @ '')'')) fs) vars =
   Inr (\<exists>f\<in>set fs. rt_source rt f = VNull, vars)"
proof (induction fs)
  case Nil
  then show ?case by simp
next
  case (Cons f fs)
  have "evalE rt (Raw (''$util.isNull($ctx.source.'' @ f @ '')'')) vars =
        Inr (VBool (rt_source rt f = VNull), vars)"
    using evalRaw_isNull[of rt f] by simp
  with Cons show ?case by (simp add: truthy_def del: append.simps)
qed

lemma resolveRef_connectionAttibutes:
  "resolveRef rt Map.empty (''ctx.stash.connectionAttibutes.get(\"'' @ k @ ''\")'') =
   Inr (rt_connectionAttibutes rt k)"
proof -
  have "between ''ctx.stash.connectionAttibutes.get(\"'' ''\")''
          (''ctx.stash.connectionAttibutes.get(\"'' @ k @ ''\")'') = Some k"
    by (rule between_append)
  then show ?thesis by (simp add: resolveRef_def)
qed

lemma resolveRef_source:
  "resolveRef rt Map.empty (''ctx.source.'' @ f) = Inr (rt_source rt f)"
  by (simp add: resolveRef_def between_def)

lemma set_partitionKeyValue:
  "render rt (SetNode (Ref PARTITION_KEY_VALUE)
          (MethodCall (Ref ''util.defaultIfNull'')
             [Ref (''ctx.stash.connectionAttibutes.get(\"'' @ pk @ ''\")''),
              Ref (''ctx.source.'' @ pk)])) Map.empty =
   Inr ([], [PARTITION_KEY_VALUE \<mapsto>
          (if rt_connectionAttibutes rt pk = VNull then rt_source rt pk
           else rt_connectionAttibutes rt pk)])"
  using resolveRef_connectionAttibutes[of rt pk] resolveRef_source[of rt pk]
  by (simp add: callMethod_def del: append.simps)

lemma any_key_null:
  "evalE rt (Or (MethodCall (Ref ''util.isNull'') [Ref PARTITION_KEY_VALUE] #
               map (\<lambda>f. Raw (''$util.isNull($ctx.source.'' @ f @ '')'')) fs))
      [PARTITION_KEY_VALUE \<mapsto> pkv] =
   Inr (VBool (pkv = VNull \<or> (\<exists>f\<in>set fs. rt_source rt f = VNull)),
        [PARTITION_KEY_VALUE \<mapsto> pkv])"
proof -
  have a: "evalE rt (MethodCall (Ref ''util.isNull'') [Ref PARTITION_KEY_VALUE])
             [PARTITION_KEY_VALUE \<mapsto> pkv] =
           Inr (VBool (pkv = VNull), [PARTITION_KEY_VALUE \<mapsto> pkv])"
    by (simp add: resolveRef_def callMethod_def)
  show ?thesis
    by (simp only: evalE.simps(7) evalOr.simps a evalOr_isNull)
       (simp add: truthy_def)
qed

lemma query_branch:
  assumes names: "\<forall>(k, e) \<in> set names. \<exists>s. e = Str s"
      and "values": "\<forall>(k, e) \<in> set values.
                      \<exists>p s. e = Ref p \<and> stripPrefix ''util.parseJson('' p = Some s"
  shows "\<exists>query rest vars'.
     render rt (CompoundExpression
             [SetNode (Ref ''GetRequest'')
                (Obj [(''version'', Str ''2018-05-29''), (''operation'', Str ''Query'')]),
              Qref (MethodCall (Ref ''GetRequest.put'')
                      [Str ''query'',
                       Obj [(''expression'', Str expression),
                            (''expressionNames'', Obj names),
                            (''expressionValues'', Obj values)]]),
              Iff (NotNode (IsNullOrEmpty authFilter))
                (Qref (MethodCall (Ref ''GetRequest.put'')
                         [Str ''filter'',
                          MethodCall (Ref ''util.parseJson'')
                            [MethodCall (Ref ''util.transform.toDynamoDBFilterExpression'')
                               [authFilter]]])),
              ToJson (Ref ''GetRequest'')]) [PARTITION_KEY_VALUE \<mapsto> pkv] =
     Inr ([VMap ((''version'', VString ''2018-05-29'') # (''operation'', VString ''Query'') #
                 (''query'', query) # rest)], vars')"
proof -
  let ?vars2 = "[''partitionKeyValue'' \<mapsto> pkv,
                 ''GetRequest'' \<mapsto> VMap [(''version'', VString ''2018-05-29''),
                                            (''operation'', VString ''Query'')]]"
  have free: "\<forall>p s. stripPrefix ''util.parseJson('' p = Some s \<longrightarrow> ?vars2 p = None"
    by (auto dest!: stripPrefix_SomeD)
  obtain ns where N: "evalProps rt names ?vars2 = Inr (ns, ?vars2)"
    using evalProps_str[OF names] by blast
  obtain vs where V: "evalProps rt values ?vars2 = Inr (vs, ?vars2)"
    using evalProps_opaque[OF "values" free] by blast
  have put: "stripSuffix ''.put'' ''GetRequest.put'' = Some ''GetRequest''"
    by (simp add: stripSuffix_def)
  have nput: "stripSuffix ''.put'' ''util.parseJson'' = None"
     "stripSuffix ''.put'' ''util.transform.toDynamoDBFilterExpression'' = None"
    by (simp_all add: stripSuffix_def)
  show ?thesis
    by (simp add: N V put nput callMethod_def resolveRef_def authFilter_def
        PARTITION_KEY_VALUE_def between_def)
qed


lemma render_request:
  "render rt (getItemRequestExpression localFields exprs names values) Map.empty =
   (if truthy (rt_deniedField rt) then Inl (Returned (VString ''null''))
    else if partitionKeyValue rt (interpolate (at_index localFields 0)) = VNull
       \<or> (\<exists>f\<in>set (drop 1 localFields). rt_source rt f = VNull)
    then Inl (Returned VNull)
    else render rt (CompoundExpression
             [SetNode (Ref ''GetRequest'')
                (Obj [(''version'', Str ''2018-05-29''), (''operation'', Str ''Query'')]),
              Qref (MethodCall (Ref ''GetRequest.put'')
                      [Str ''query'',
                       Obj [(''expression'', Str (join exprs '' AND '')),
                            (''expressionNames'', Obj names),
                            (''expressionValues'', Obj values)]]),
              Iff (NotNode (IsNullOrEmpty authFilter))
                (Qref (MethodCall (Ref ''GetRequest.put'')
                         [Str ''filter'',
                          MethodCall (Ref ''util.parseJson'')
                            [MethodCall (Ref ''util.transform.toDynamoDBFilterExpression'')
                               [authFilter]]])),
              ToJson (Ref ''GetRequest'')])
           [PARTITION_KEY_VALUE \<mapsto> partitionKeyValue rt (interpolate (at_index localFields 0))])"
  (is "render rt _ Map.empty = (if _ then _ else if _ then _ else render rt ?Q ?vars1)")
proof -
  let ?pk = "interpolate (at_index localFields 0)"
  have r1: "render rt (Iff (Ref ''ctx.stash.deniedField'') (Raw ''#return($util.toJson(null))''))
              Map.empty =
            (if truthy (rt_deniedField rt) then Inl (Returned (VString ''null''))
             else Inr ([], Map.empty))"
    by (simp add: resolveRef_def evalRaw_def)
  have r2: "render rt (SetNode (Ref PARTITION_KEY_VALUE)
          (MethodCall (Ref ''util.defaultIfNull'')
             [Ref (''ctx.stash.connectionAttibutes.get(\"'' @ ?pk @ ''\")''),
              Ref (''ctx.source.'' @ ?pk)])) Map.empty = Inr ([], ?vars1)"
    unfolding partitionKeyValue_def by (rule set_partitionKeyValue)
  have r3: "render rt (IfElse
          (Or (MethodCall (Ref ''util.isNull'') [Ref PARTITION_KEY_VALUE] #
               map (\<lambda>f. Raw (''$util.isNull($ctx.source.'' @ f @ '')'')) (drop 1 localFields)))
          (Raw ''#return'') ?Q) ?vars1 =
        (if partitionKeyValue rt ?pk = VNull
            \<or> (\<exists>f\<in>set (drop 1 localFields). rt_source rt f = VNull)
         then Inl (Returned VNull) else render rt ?Q ?vars1)"
  proof -
    have ret: "render rt (Raw ''#return'') ?vars1 = Inl (Returned VNull)"
      by (simp add: evalRaw_def)
    show ?thesis
      by (simp only: render.simps(2) any_key_null)
         (simp add: truthy_def ret del: render.simps)
  qed
  show ?thesis
  proof (cases "truthy (rt_deniedField rt)")
    case True
    then show ?thesis
      unfolding getItemRequestExpression_def
      by (simp only: render.simps(5) renderAll.simps r1 if_True sum.case)
  next
    case False
    then show ?thesis
      unfolding getItemRequestExpression_def
      by (simp only: render.simps(5) renderAll.simps r1 r2 r3 if_False sum.case prod.case)
         (simp del: render.simps split: sum.splits)
  qed
qed

lemma request_short_circuit:
  assumes "truthy (rt_deniedField rt)
           \<or> partitionKeyValue rt (interpolate (at_index localFields 0)) = VNull
           \<or> (\<exists>f\<in>set (drop 1 localFields). rt_source rt f = VNull)"
  shows "runTemplate rt (getItemRequestExpression localFields exprs names values) =
         LocalReturn (if truthy (rt_deniedField rt) then VString ''null'' else VNull)"
  using assms unfolding runTemplate_def render_request by (auto simp del: render.simps)

lemma request_query:
  assumes names: "\<forall>(k, e) \<in> set names. \<exists>s. e = Str s"
      and "values": "\<forall>(k, e) \<in> set values.
                      \<exists>p s. e = Ref p \<and> stripPrefix ''util.parseJson('' p = Some s"
      and go: "\<not> (truthy (rt_deniedField rt)
              \<or> partitionKeyValue rt (interpolate (at_index localFields 0)) = VNull
              \<or> (\<exists>f\<in>set (drop 1 localFields). rt_source rt f = VNull))"
  shows "\<exists>query rest.
     runTemplate rt (getItemRequestExpression localFields exprs names values) =
     Output [VMap ((''version'', VString ''2018-05-29'') # (''operation'', VString ''Query'') #
                   (''query'', query) # rest)]"
proof -
  from query_branch[OF names "values", of rt "join exprs '' AND ''"
      "partitionKeyValue rt (interpolate (at_index localFields 0))"]
  obtain query rest vars' where q:
    "render rt (CompoundExpression
             [SetNode (Ref ''GetRequest'')
                (Obj [(''version'', Str ''2018-05-29''), (''operation'', Str ''Query'')]),
              Qref (MethodCall (Ref ''GetRequest.put'')
                      [Str ''query'',
                       Obj [(''expression'', Str (join exprs '' AND '')),
                            (''expressionNames'', Obj names),
                            (''expressionValues'', Obj values)]]),
              Iff (NotNode (IsNullOrEmpty authFilter))
                (Qref (MethodCall (Ref ''GetRequest.put'')
                         [Str ''filter'',
                          MethodCall (Ref ''util.parseJson'')
                            [MethodCall (Ref ''util.transform.toDynamoDBFilterExpression'')
                               [authFilter]]])),
              ToJson (Ref ''GetRequest'')])
       [PARTITION_KEY_VALUE \<mapsto> partitionKeyValue rt (interpolate (at_index localFields 0))] =
     Inr ([VMap ((''version'', VString ''2018-05-29'') # (''operation'', VString ''Query'') #
                 (''query'', query) # rest)], vars')"
    by blast
  have "runTemplate rt (getItemRequestExpression localFields exprs names values) =
     Output [VMap ((''version'', VString ''2018-05-29'') # (''operation'', VString ''Query'') #
                   (''query'', query) # rest)]"
    unfolding runTemplate_def render_request using go by (simp add: q del: render.simps)
  then show ?thesis by blast
qed



lemma buildKeyValueExpression_ref:
  "buildKeyValueExpression ctx fieldName object isPartitionKey = Inr e \<Longrightarrow>
   \<exists>p s. e = Ref p \<and> stripPrefix ''util.parseJson('' p = Some s"
  by (auto simp: buildKeyValueExpression_def Let_def split: option.splits)

lemma compositeSortKeyExpression_ref:
  "\<exists>p s. compositeSortKeyExpression ctx localFields = Ref p \<and>
         stripPrefix ''util.parseJson('' p = Some s"
  by (simp add: compositeSortKeyExpression_def)

lemma sortKeyCondition_shape:
  assumes "sortKeyCondition ctx config localFields keySchema = Inr (es, ns, vs)"
  shows "(\<forall>(k, e) \<in> set ns. \<exists>s. e = Str s) \<and>
         (\<forall>(k, e) \<in> set vs. \<exists>p s. e = Ref p \<and> stripPrefix ''util.parseJson('' p = Some s)"
  using assms compositeSortKeyExpression_ref[of ctx localFields]
  by (auto simp: sortKeyCondition_def split: if_splits sum.splits
           dest: buildKeyValueExpression_ref)

text \<open>What a successful call registers.\<close>

lemma makeGetItemConnectionWithKeyResolver_registers:
  assumes "makeGetItemConnectionWithKeyResolver ctx config state = Inr state'"
  shows "\<exists>resolver exprs names values.
           st_resolvers state' (object_name (ho_object config), field_name (ho_field config))
             = Some resolver
         \<and> template_content (resolver_requestMappingTemplate resolver)
             = getItemRequestExpression (localFieldsOf config) exprs names values
         \<and> template_content (resolver_responseMappingTemplate resolver)
             = dynamoDBResponse False getItemResponseExpression
         \<and> (\<forall>(k, e) \<in> set names. \<exists>s. e = Str s)
         \<and> (\<forall>(k, e) \<in> set values.
               \<exists>p s. e = Ref p \<and> stripPrefix ''util.parseJson('' p = Some s)"
proof -
  note d = makeGetItemConnectionWithKeyResolver_def Let_def
  have nz: "length (ho_relatedTypeIndex config) \<noteq> 0"
    using assms by (auto simp: d)
  obtain table where t: "getTable state (ho_relatedType config) = Inr table"
    using assms nz by (cases "getTable state (ho_relatedType config)") (auto simp: d)
  obtain partitionKeyName where
    pk: "keySchemaAttributeName (table_keySchema table) 0 = Inr partitionKeyName"
    using assms nz t
    by (cases "keySchemaAttributeName (table_keySchema table) 0") (auto simp: d)
  obtain partitionValue where
    pv: "buildKeyValueExpression ctx (at_index (localFieldsOf config) 0)
           (getObject ctx (object_name (ho_object config))) True = Inr partitionValue"
    using assms nz t pk
    by (cases "buildKeyValueExpression ctx (at_index (localFieldsOf config) 0)
           (getObject ctx (object_name (ho_object config))) True") (auto simp: d)
  obtain es ns vs where
    sk: "sortKeyCondition ctx config (localFieldsOf config) (table_keySchema table)
           = Inr (es, ns, vs)"
    using assms nz t pk pv
    by (cases "sortKeyCondition ctx config (localFieldsOf config) (table_keySchema table)")
       (auto simp: d)
  let ?resolver = "\<lparr>resolver_typeName = object_name (ho_object config),
                  resolver_fieldName = field_name (ho_field config),
                  resolver_resourceId =
                    ResolverResourceID ctx (object_name (ho_object config))
                      (field_name (ho_field config)),
                  resolver_dataSource =
                    getDataSource ctx (object_name (ho_relatedType config) @ ''Table''),
                  resolver_requestMappingTemplate =
                    \<lparr>template_content =
                       getItemRequestExpression (localFieldsOf config)
                         ([''#partitionKey = :partitionValue''] @ es)
                         ([(''#partitionKey'', Str partitionKeyName)] @ ns)
                         ([('':partitionValue'', partitionValue)] @ vs),
                     template_name = object_name (ho_object config) @ ''.'' @
                       field_name (ho_field config) @ ''.req.vtl''\<rparr>,
                  resolver_responseMappingTemplate =
                    \<lparr>template_content = dynamoDBResponse False getItemResponseExpression,
                     template_name = object_name (ho_object config) @ ''.'' @
                       field_name (ho_field config) @ ''.res.vtl''\<rparr>,
                  resolver_stack = Some (getStackFor ctx
                    (ResolverResourceID ctx (object_name (ho_object config))
                       (field_name (ho_field config))) CONNECTION_STACK)\<rparr>"
  have st: "state' = state\<lparr>st_resolvers := (st_resolvers state)
                ((object_name (ho_object config), field_name (ho_field config)) \<mapsto>
                 ?resolver)\<rparr>"
    using assms nz t pk pv sk by (simp add: d)
  from buildKeyValueExpression_ref[OF pv] sortKeyCondition_shape[OF sk]
  have shape: "(\<forall>(k, e) \<in> set ([(''#partitionKey'', Str partitionKeyName)] @ ns). \<exists>s. e = Str s)"
    "(\<forall>(k, e) \<in> set ([('':partitionValue'', partitionValue)] @ vs).
        \<exists>p s. e = Ref p \<and> stripPrefix ''util.parseJson('' p = Some s)"
    by auto
  show ?thesis
    apply (rule exI[of _ ?resolver])
    apply (rule exI[of _ "[''#partitionKey = :partitionValue''] @ es"])
    apply (rule exI[of _ "[(''#partitionKey'', Str partitionKeyName)] @ ns"])
    apply (rule exI[of _ "[('':partitionValue'', partitionValue)] @ vs"])
    unfolding st using shape by simp
qed

lemma example_hasOne_succeeds:
  "\<exists>state'. makeGetItemConnectionWithKeyResolver example_ctx example_hasOne example_state
         = Inr state'"
  by (simp add: makeGetItemConnectionWithKeyResolver_def example_hasOne_def example_state_def
        getTable_def example_Editor_def keySchemaAttributeName_def at_index_def
        buildKeyValueExpression_def example_ctx_def example_Post_def sortKeyCondition_def
        Let_def localFieldsOf_def)



text \<open>
  Claim C2, amended. The request program of the registered resolver returns locally,
  without a request to the data source, exactly when \<^verbatim>\<open>ctx.stash.deniedField\<close> is set, or
  the partition-key value (the connection attribute of the stash for the first local field,
  else that field of the source) is null, or any one of the remaining local fields is null
  in the source. Otherwise it renders the request, an object whose \<^verbatim>\<open>operation\<close> is
  \<^verbatim>\<open>Query\<close> and which carries the key condition under \<^verbatim>\<open>query\<close>.
\<close>

theorem getItem_request_short_circuit:
  assumes "makeGetItemConnectionWithKeyResolver ctx config state = Inr state'"
  shows "\<exists>resolver.
           st_resolvers state' (object_name (ho_object config), field_name (ho_field config))
             = Some resolver
         \<and> (if truthy (rt_deniedField rt)
                \<or> partitionKeyValue rt (interpolate (at_index (localFieldsOf config) 0)) = VNull
                \<or> (\<exists>f\<in>set (drop 1 (localFieldsOf config)). rt_source rt f = VNull)
             then isLocalReturn
                    (runTemplate rt (template_content (resolver_requestMappingTemplate resolver)))
             else \<exists>query rest.
                    runTemplate rt (template_content (resolver_requestMappingTemplate resolver))
                    = Output [VMap ((''version'', VString ''2018-05-29'') #
                                    (''operation'', VString ''Query'') #
                                    (''query'', query) # rest)])"
proof -
  from makeGetItemConnectionWithKeyResolver_registers[OF assms]
  obtain resolver exprs names "values" where
    r: "st_resolvers state' (object_name (ho_object config), field_name (ho_field config))
          = Some resolver"
    and p: "template_content (resolver_requestMappingTemplate resolver)
          = getItemRequestExpression (localFieldsOf config) exprs names values"
    and n: "\<forall>(k, e) \<in> set names. \<exists>s. e = Str s"
    and v: "\<forall>(k, e) \<in> set values.
              \<exists>p s. e = Ref p \<and> stripPrefix ''util.parseJson('' p = Some s"
    by blast
  show ?thesis
  proof (cases "truthy (rt_deniedField rt)
                \<or> partitionKeyValue rt (interpolate (at_index (localFieldsOf config) 0)) = VNull
                \<or> (\<exists>f\<in>set (drop 1 (localFieldsOf config)). rt_source rt f = VNull)")
    case True
    from request_short_circuit[OF True, of exprs names "values"]
    have "isLocalReturn
            (runTemplate rt (template_content (resolver_requestMappingTemplate resolver)))"
      unfolding p by simp
    with r True show ?thesis by (simp only: if_True) simp
  next
    case False
    from request_query[OF n v False, of exprs] r p False
    show ?thesis by (simp only: if_False) simp
  qed
qed

theorem getItem_request_short_circuit_witness:
  "\<exists>program query rest.
     example_requestProgram = Some program
   \<and> runTemplate (example_runtime\<lparr>rt_source := (\<lambda>f. VString ''x'')\<rparr>) program
       = Output [VMap ((''version'', VString ''2018-05-29'') #
                       (''operation'', VString ''Query'') # (''query'', query) # rest)]
   \<and> isLocalReturn (runTemplate (example_runtime\<lparr>rt_source := (\<lambda>f. VNull)\<rparr>) program)
   \<and> isLocalReturn (runTemplate (example_runtime\<lparr>rt_deniedField := VBool True\<rparr>) program)"
proof -
  obtain state' where
    ok: "makeGetItemConnectionWithKeyResolver example_ctx example_hasOne example_state = Inr state'"
    using example_hasOne_succeeds by blast
  have key: "(object_name (ho_object example_hasOne), field_name (ho_field example_hasOne))
             = (''Post'', ''editor'')"
    by (simp add: example_hasOne_def example_Post_def example_editor_def)
  have lf: "localFieldsOf example_hasOne = [''postEditorId'', ''postEditorName'', ''postEditorEmail'']"
    by (simp add: localFieldsOf_def example_hasOne_def)
  let ?go = "example_runtime\<lparr>rt_source := (\<lambda>f. VString ''x'')\<rparr>"
  let ?stop = "example_runtime\<lparr>rt_source := (\<lambda>f. VNull)\<rparr>"
  let ?denied = "example_runtime\<lparr>rt_deniedField := VBool True\<rparr>"
  have go: "\<not> (truthy (rt_deniedField ?go)
                \<or> partitionKeyValue ?go (interpolate (at_index (localFieldsOf example_hasOne) 0)) = VNull
                \<or> (\<exists>f\<in>set (drop 1 (localFieldsOf example_hasOne)). rt_source ?go f = VNull))"
    by (simp add: lf example_runtime_def truthy_def partitionKeyValue_def)
  have stop: "truthy (rt_deniedField ?stop)
                \<or> partitionKeyValue ?stop (interpolate (at_index (localFieldsOf example_hasOne) 0)) = VNull
                \<or> (\<exists>f\<in>set (drop 1 (localFieldsOf example_hasOne)). rt_source ?stop f = VNull)"
    by (simp add: lf example_runtime_def partitionKeyValue_def)
  have denied: "truthy (rt_deniedField ?denied)
                \<or> partitionKeyValue ?denied (interpolate (at_index (localFieldsOf example_hasOne) 0)) = VNull
                \<or> (\<exists>f\<in>set (drop 1 (localFieldsOf example_hasOne)). rt_source ?denied f = VNull)"
    by (simp add: truthy_def)
  from getItem_request_short_circuit[OF ok, of ?go] go
  obtain resolver query rest where
    r: "st_resolvers state' (''Post'', ''editor'') = Some resolver"
    and q: "runTemplate ?go (template_content (resolver_requestMappingTemplate resolver))
            = Output [VMap ((''version'', VString ''2018-05-29'') #
                            (''operation'', VString ''Query'') # (''query'', query) # rest)]"
    unfolding key by (simp only: if_False) blast
  from getItem_request_short_circuit[OF ok, of ?stop] stop r
  have s: "isLocalReturn
             (runTemplate ?stop (template_content (resolver_requestMappingTemplate resolver)))"
    unfolding key by (simp only: if_True) simp
  from getItem_request_short_circuit[OF ok, of ?denied] denied r
  have d: "isLocalReturn
             (runTemplate ?denied (template_content (resolver_requestMappingTemplate resolver)))"
    unfolding key by (simp only: if_True) simp
  have e: "example_requestProgram
           = Some (template_content (resolver_requestMappingTemplate resolver))"
    by (simp add: example_requestProgram_def ok r)
  from e q s d show ?thesis by blast
qed

text \<open>
  Claim C2 as stated fails when some, but not all, local fields are null: on a post whose
  \<^verbatim>\<open>postEditorId\<close> and \<^verbatim>\<open>postEditorName\<close> are set and whose \<^verbatim>\<open>postEditorEmail\<close> is null, with
  no denied field, the request program of \<^verbatim>\<open>Post.editor\<close> returns locally.
\<close>

theorem getItem_request_partial_null_counterexample:
  "map_option (runTemplate example_runtime) example_requestProgram = Some (LocalReturn VNull)
   \<and> rt_source example_runtime ''postEditorId'' = VString ''e1''
   \<and> rt_source example_runtime ''postEditorName'' = VString ''Ada''
   \<and> rt_deniedField example_runtime = VNull"
proof -
  obtain state' where
    ok: "makeGetItemConnectionWithKeyResolver example_ctx example_hasOne example_state = Inr state'"
    using example_hasOne_succeeds by blast
  have key: "(object_name (ho_object example_hasOne), field_name (ho_field example_hasOne))
             = (''Post'', ''editor'')"
    by (simp add: example_hasOne_def example_Post_def example_editor_def)
  have lf: "localFieldsOf example_hasOne = [''postEditorId'', ''postEditorName'', ''postEditorEmail'']"
    by (simp add: localFieldsOf_def example_hasOne_def)
  from makeGetItemConnectionWithKeyResolver_registers[OF ok]
  obtain resolver exprs names "values" where
    r: "st_resolvers state' (''Post'', ''editor'') = Some resolver"
    and p: "template_content (resolver_requestMappingTemplate resolver)
          = getItemRequestExpression (localFieldsOf example_hasOne) exprs names values"
    unfolding key by blast
  have stop: "truthy (rt_deniedField example_runtime)
      \<or> partitionKeyValue example_runtime
           (interpolate (at_index (localFieldsOf example_hasOne) 0)) = VNull
      \<or> (\<exists>f\<in>set (drop 1 (localFieldsOf example_hasOne)). rt_source example_runtime f = VNull)"
    by (simp add: lf example_runtime_def)
  have e: "example_requestProgram
           = Some (template_content (resolver_requestMappingTemplate resolver))"
    by (simp add: example_requestProgram_def ok r)
  have "map_option (runTemplate example_runtime) example_requestProgram
        = Some (LocalReturn VNull)"
    unfolding e p using request_short_circuit[OF stop, of exprs names "values"]
    by (simp add: example_runtime_def truthy_def)
  then show ?thesis by (simp add: example_runtime_def)
qed

end
